theory Spec2Isabelle
  imports
    Complex_Main
    "HOL-Library.Sublist"
    "HOL-Library.Word"
    "HOL-Library.Char_ord"
    "HOL-Library.List_Lexorder"
begin

section \<open>Python string primitives used by the sources\<close>

text \<open>
  A Python \<open>str\<close> is modelled as a \<open>string\<close> (the UTF-8 bytes of the text). Every
  separator and suffix the sources search for is ASCII, so searching the bytes finds
  the same occurrences as searching the code points.
\<close>

text \<open>\<open>sub in s\<close>: does \<open>sub\<close> occur in \<open>s\<close> as a contiguous substring.\<close>

fun py_in :: "string \<Rightarrow> string \<Rightarrow> bool" where
  "py_in sub [] = (sub = [])"
| "py_in sub (c # cs) = (prefix sub (c # cs) \<or> py_in sub cs)"

text \<open>
  \<open>s.split(sep)[0]\<close> for a non-empty \<open>sep\<close>: the text before the first occurrence of
  \<open>sep\<close>, all of \<open>s\<close> when there is none.
\<close>

fun split_head :: "string \<Rightarrow> string \<Rightarrow> string" where
  "split_head sep [] = []"
| "split_head sep (c # cs) = (if prefix sep (c # cs) then [] else c # split_head sep cs)"

text \<open>\<open>s.endswith(suf)\<close>.\<close>

definition endswith :: "string \<Rightarrow> string \<Rightarrow> bool" where
  "endswith s suf = suffix suf s"

text \<open>
  \<open>s.lower()\<close> on ASCII text (the base URL is taken to be ASCII), the replacement of
  every backslash by a slash of line 193, and the line feed.
\<close>

definition lower :: "string \<Rightarrow> string" where
  "lower s = map (\<lambda>c. if CHR ''A'' \<le> c \<and> c \<le> CHR ''Z'' then char_of (of_char c + (32::nat)) else c) s"

definition backslash :: char where
  "backslash = CHR 0x5C"

definition replace_backslash :: "string \<Rightarrow> string" where
  "replace_backslash s = map (\<lambda>c. if c = backslash then CHR ''/'' else c) s"

definition LF :: char where
  "LF = CHR 0x0A"

text \<open>
  \<open>os.path.basename\<close> and the extension part of \<open>os.path.splitext\<close> on a POSIX
  system: the extension starts at the last dot of the last path component, unless only
  dots come before it there.
\<close>

definition basename :: "string \<Rightarrow> string" where
  "basename p = rev (takeWhile (\<lambda>c. c \<noteq> CHR ''/'') (rev p))"

definition splitext_ext :: "string \<Rightarrow> string" where
  "splitext_ext p =
     (let name = dropWhile (\<lambda>c. c = CHR ''.'') (basename p)
      in if CHR ''.'' \<in> set name
         then CHR ''.'' # rev (takeWhile (\<lambda>c. c \<noteq> CHR ''.'') (rev name))
         else [])"

section \<open>Bytes, files and Base64\<close>

type_synonym byte = "8 word"

text \<open>An exception is represented by its text, \<open>str(e)\<close>.\<close>

type_synonym exn = string

text \<open>
  \<open>base64.b64encode\<close> (RFC 4648, with padding); its output is ASCII, so the
  \<open>decode('utf-8')\<close> that follows changes nothing.
\<close>

definition b64_alphabet :: string where
  "b64_alphabet = ''ABCDEFGHIJKLMNOPQRSTUVWXYZabcdefghijklmnopqrstuvwxyz0123456789+/''"

definition b64_char :: "nat \<Rightarrow> char" where
  "b64_char n = b64_alphabet ! (n mod 64)"

fun b64encode :: "byte list \<Rightarrow> string" where
  "b64encode [] = []"
| "b64encode [a] =
     (let x = unat a
      in [b64_char (x div 4), b64_char (x mod 4 * 16), CHR ''='', CHR ''=''])"
| "b64encode [a, b] =
     (let x = unat a; y = unat b
      in [b64_char (x div 4), b64_char (x mod 4 * 16 + y div 16),
          b64_char (y mod 16 * 4), CHR ''=''])"
| "b64encode (a # b # c # rest) =
     (let x = unat a; y = unat b; z = unat c
      in [b64_char (x div 4), b64_char (x mod 4 * 16 + y div 16),
          b64_char (y mod 16 * 4 + z div 64), b64_char (z mod 64)] @ b64encode rest)"

section \<open>Effects\<close>

text \<open>
  Everything the program does to the outside is recorded, in order, in a trace of
  events: a log record (logger, level, message), a \<open>time.sleep\<close> with its duration, a
  chat-completion request, \<open>os.makedirs\<close>, the writing of the input copy, the call of
  \<open>create_worker\<close>, the call of \<open>convert_to_images\<close>, the writing of the output file,
  \<open>print\<close>, and \<open>shutil.rmtree\<close>. Logger names are those of
  \<open>logging.getLogger(__name__)\<close>: \<open>__main__\<close> for main.py run as a script,
  \<open>core.LLMClient\<close> for the client module.
\<close>

datatype content_part = Text string | Image_url string

datatype content = Plain string | Parts "content_part list"

record message =
  role :: string
  content :: content

record request =
  req_model :: string
  req_messages :: "message list"
  req_temperature :: rat
  req_max_tokens :: int
  req_extra_headers :: "(string \<times> string) list"

datatype level = INFO | ERROR

datatype event =
    Log string level string
  | Sleep rat
  | Create request
  | Makedirs string
  | Write_bytes string "byte list"
  | Create_worker string int int
  | Convert_to_images
  | Write_text string string
  | Print string
  | Rmtree string

type_synonym trace = "event list"

text \<open>\<open>exit(n)\<close> raises \<open>SystemExit\<close>; no handler in the sources catches it.\<close>

datatype abort = SystemExit int

fun is_create :: "event \<Rightarrow> bool" where
  "is_create (Create q) = True"
| "is_create e = False"

definition requests_sent :: "trace \<Rightarrow> nat" where
  "requests_sent t = length (filter is_create t)"

text \<open>
  The collaborators the sources call but do not define:
  \<^item> \<open>getenv\<close>: the three environment variables read by \<open>os.getenv\<close>;
  \<^item> \<open>create\<close>: \<open>client.chat.completions.create\<close> followed by
    \<open>response.choices[0].message.content\<close>; its answer may differ from call to call, so
    it also takes the number of requests sent before. It either raises or returns text;
  \<^item> \<open>read_file\<close>: \<open>open(path, "rb").read()\<close>, which raises or returns the bytes;
  \<^item> \<open>worker\<close>: \<open>core.FileWorker.create_worker\<close> followed by
    \<open>convert_to_images\<close>: \<open>Inl\<close> is the \<open>ValueError\<close> of \<open>create_worker\<close>, \<open>Inr\<close> the
    image paths \<open>convert_to_images\<close> returns;
  \<^item> \<open>unwrap\<close>: \<open>core.Util.remove_markdown_warp\<close>;
  \<^item> \<open>now\<close>: \<open>time.strftime('%Y%m%d%H%M%S')\<close>, fourteen digits.

  The model covers the runs in which the provider's answer, when there is one, is a
  text, in which \<open>convert_to_images\<close> returns, and in which the input file, its copy
  and the output file can be opened.
\<close>

record environ =
  OPENAI_API_KEY :: "string option"
  OPENAI_API_BASE :: "string option"
  OPENAI_DEFAULT_MODEL :: "string option"

record world =
  getenv :: environ
  create :: "nat \<Rightarrow> request \<Rightarrow> exn + string"
  read_file :: "string \<Rightarrow> exn + byte list"
  worker :: "string \<Rightarrow> int \<Rightarrow> int \<Rightarrow> exn + string list"
  unwrap :: "string \<Rightarrow> string \<Rightarrow> string"
  now :: string

section \<open>core/LLMClient.py\<close>

record LLMClient =
  self_api_key :: string
  self_model :: string
  self_base_url :: string

text \<open>
  The value \<open>LLMClient.__init__\<close> stores in \<open>self.base_url\<close>, as a function of its
  \<open>base_url\<close> argument (lines 21 to 31).
\<close>

definition LLMClient_base_url :: "string \<Rightarrow> string" where
  "LLMClient_base_url base_url =
     (let base_url = (if py_in ''/models'' base_url
                      then split_head ''/models'' base_url else base_url)
      in if endswith base_url ''/v1'' then base_url
         else if endswith base_url ''/'' then base_url @ ''v1''
         else base_url @ ''/v1'')"

definition LLMClient_init :: "string \<Rightarrow> string \<Rightarrow> string \<Rightarrow> trace \<Rightarrow> LLMClient \<times> trace" where
  "LLMClient_init base_url api_key model t =
     (let url = LLMClient_base_url base_url
      in (\<lparr>self_api_key = api_key, self_model = model, self_base_url = url\<rparr>,
          t @ [Log ''core.LLMClient'' INFO (''Using API base URL: '' @ url)]))"

definition encode_image :: "world \<Rightarrow> string \<Rightarrow> exn + string" where
  "encode_image w image_path =
     (case read_file w image_path of Inl e \<Rightarrow> Inl e | Inr bytes \<Rightarrow> Inr (b64encode bytes))"

text \<open>The loop of lines 65 to 72: one entry appended per path; a failing read raises.\<close>

fun append_images :: "world \<Rightarrow> content_part list \<Rightarrow> string list \<Rightarrow> exn + content_part list" where
  "append_images w user_content [] = Inr user_content"
| "append_images w user_content (img_path # rest) =
     (case encode_image w img_path of
        Inl e \<Rightarrow> Inl e
      | Inr base64_image \<Rightarrow>
          append_images w
            (user_content @ [Image_url (''data:image/jpeg;base64,'' @ base64_image)]) rest)"

text \<open>Lines 63 to 77: the message list, or the exception of a failing read.\<close>

definition build_messages ::
  "world \<Rightarrow> string \<Rightarrow> string option \<Rightarrow> string list option \<Rightarrow> exn + message list" where
  "build_messages w user_message system_prompt image_paths =
     (case (case image_paths of
              None \<Rightarrow> Inr [Text user_message]
            | Some paths \<Rightarrow>
                if paths = [] then Inr [Text user_message]
                else append_images w [Text user_message] paths) of
        Inl e \<Rightarrow> Inl e
      | Inr user_content \<Rightarrow>
          Inr [\<lparr>role = ''system'',
                content = Plain (case system_prompt of None \<Rightarrow> [] | Some s \<Rightarrow> s)\<rparr>,
               \<lparr>role = ''user'', content = Parts user_content\<rparr>])"

text \<open>
  \<open>LLMClient.completion\<close>. A failing read raises before the \<open>try\<close> and is not logged
  here; a failing request is logged and raised again.
\<close>

text \<open>
  The arguments of \<open>client.chat.completions.create\<close> (lines 81 to 98): the two calls
  differ only in the extra headers, sent when the lower-cased base URL contains
  \<open>openrouter.ai\<close>.
\<close>

definition chat_request :: "LLMClient \<Rightarrow> message list \<Rightarrow> rat \<Rightarrow> int \<Rightarrow> request" where
  "chat_request self messages temperature max_tokens =
     \<lparr>req_model = self_model self, req_messages = messages,
      req_temperature = temperature, req_max_tokens = max_tokens,
      req_extra_headers =
        (if py_in ''openrouter.ai'' (lower (self_base_url self))
         then [(''X-Title'', ''MarkPDFdown''),
               (''HTTP-Referer'', ''https://github.com/jorben/markpdfdown'')]
         else [])\<rparr>"

definition LLMClient_completion ::
  "world \<Rightarrow> LLMClient \<Rightarrow> string \<Rightarrow> string option \<Rightarrow> string list option \<Rightarrow> rat \<Rightarrow> int
     \<Rightarrow> trace \<Rightarrow> (exn + string) \<times> trace" where
  "LLMClient_completion w self user_message system_prompt image_paths temperature max_tokens t =
     (case build_messages w user_message system_prompt image_paths of
        Inl e \<Rightarrow> (Inl e, t)
      | Inr messages \<Rightarrow>
          (let q = chat_request self messages temperature max_tokens
           in case create w (requests_sent t) q of
                Inr text \<Rightarrow> (Inr text, t @ [Create q])
              | Inl e \<Rightarrow>
                  (Inl e, t @ [Create q,
                               Log ''core.LLMClient'' ERROR (''API request failed: '' @ e)])))"

section \<open>main.py\<close>

text \<open>
  The retry loop of \<open>completion\<close> (lines 60 to 68) around a client call: return at the
  first success; after each failure log it and sleep half a second; the empty string
  when the attempts are used up. The number of attempts is \<open>retry_times\<close>, a natural
  number here (\<open>range\<close> of a negative number is empty, as \<open>range(0)\<close> is).
\<close>

fun retry_loop :: "nat \<Rightarrow> (trace \<Rightarrow> (exn + string) \<times> trace) \<Rightarrow> trace \<Rightarrow> string \<times> trace" where
  "retry_loop 0 call t = ([], t)"
| "retry_loop (Suc n) call t =
     (case call t of
        (Inr response, t') \<Rightarrow> (response, t')
      | (Inl e, t') \<Rightarrow>
          retry_loop n call (t' @ [Log ''__main__'' ERROR (''LLM call failed: '' @ e),
                                   Sleep (1 / 2)]))"

text \<open>\<open>not v\<close> for a value that is \<open>None\<close> or a string.\<close>

definition falsy :: "string option \<Rightarrow> bool" where
  "falsy v = (case v of None \<Rightarrow> True | Some s \<Rightarrow> s = [])"

text \<open>Lines 41 to 47: the base URL handed to the client.\<close>

definition configured_base_url :: "string option \<Rightarrow> string" where
  "configured_base_url base =
     (let base_url = (case base of
                        None \<Rightarrow> None
                      | Some u \<Rightarrow>
                          if u \<noteq> [] \<and> py_in ''/models'' u
                          then Some (split_head ''/models'' u) else Some u)
      in if falsy base_url then ''https://api.openai.com'' else the base_url)"

text \<open>
  \<open>completion\<close> (lines 19 to 68): without an API key it logs and exits with status 1;
  otherwise it settles the base URL and the model, constructs the client and runs the
  retry loop, whose result it returns.
\<close>

definition completion ::
  "world \<Rightarrow> string \<Rightarrow> string \<Rightarrow> string \<Rightarrow> string list option \<Rightarrow> rat \<Rightarrow> int \<Rightarrow> nat
     \<Rightarrow> trace \<Rightarrow> (abort + string) \<times> trace" where
  "completion w message model system_prompt image_paths temperature max_tokens retry_times t =
     (if falsy (OPENAI_API_KEY (getenv w))
      then (Inl (SystemExit 1),
            t @ [Log ''__main__'' ERROR ''Please set the OPENAI_API_KEY environment variables''])
      else
        (let api_key = the (OPENAI_API_KEY (getenv w));
             base_url = configured_base_url (OPENAI_API_BASE (getenv w));
             t1 = t @ [Log ''__main__'' INFO (''Using API base URL: '' @ base_url)];
             model = (if model \<noteq> [] then model
                      else if falsy (OPENAI_DEFAULT_MODEL (getenv w)) then ''gpt-4o''
                      else the (OPENAI_DEFAULT_MODEL (getenv w)));
             (client, t2) = LLMClient_init base_url api_key model t1;
             (response, t3) =
                retry_loop retry_times
                  (LLMClient_completion w client message (Some system_prompt) image_paths
                     temperature max_tokens) t2
         in (Inr response, t3)))"

text \<open>
  \<open>convert_image_to_markdown\<close> (lines 70 to 87) and its instruction text, which starts
  with a line feed and ends with a line feed and four spaces.
\<close>

definition user_prompt :: string where
  "user_prompt =
     [LF] @ ''Please read the content in the image and transcribe it into plain Markdown format. Please note:''
     @ [LF] @ ''1. Maintain the format of headings, text, formulas, and table rows and columns''
     @ [LF] @ ''2. Mathematical formulas should be transcribed using LaTeX syntax, ensuring consistency with the original''
     @ [LF] @ ''3. No additional explanation is needed, and no content outside the original text should be added.''
     @ [LF] @ ''    ''"

definition convert_image_to_markdown :: "world \<Rightarrow> string \<Rightarrow> trace \<Rightarrow> (abort + string) \<times> trace" where
  "convert_image_to_markdown w image_path t =
     (case completion w user_prompt [] [] (Some [image_path]) (3 / 10) 8192 3 t of
        (Inl stop, t') \<Rightarrow> (Inl stop, t')
      | (Inr response, t') \<Rightarrow> (Inr (unwrap w response ''markdown''), t'))"

text \<open>
  Input classification (lines 151 to 173): the extension of the file name, or, when
  there is none, the extension named by the leading bytes.
\<close>

definition input_extension :: "string \<Rightarrow> byte list \<Rightarrow> trace \<Rightarrow> (abort + string) \<times> trace" where
  "input_extension input_filename input_data t =
     (let input_ext = splitext_ext input_filename
      in if input_ext = [] \<or> input_filename = ''<stdin>''
         then
           if prefix [0x25, 0x50, 0x44, 0x46, 0x2D] input_data
           then (Inr ''.pdf'', t @ [Log ''__main__'' INFO ''Recognized as PDF file by file content''])
           else if prefix [0xFF, 0xD8, 0xFF, 0xDB] input_data
           then (Inr ''.jpg'', t @ [Log ''__main__'' INFO ''Recognized as JPEG file by file content''])
           else if prefix [0x89, 0x50, 0x4E, 0x47] input_data
           then (Inr ''.png'', t @ [Log ''__main__'' INFO ''Recognized as PNG file by file content''])
           else if prefix [0x42, 0x4D] input_data
           then (Inr ''.bmp'', t @ [Log ''__main__'' INFO ''Recognized as BMP file by file content''])
           else (Inl (SystemExit 1), t @ [Log ''__main__'' ERROR ''Unsupported file type''])
         else (Inr input_ext, t))"

text \<open>
  The page loop (lines 191 to 196), over the paths already sorted. \<open>sorted\<close> compares
  strings code point by code point; on the UTF-8 bytes that is the lexicographic order
  of the bytes, the order of \<open>sort\<close> on \<open>string\<close>.
\<close>

fun page_loop :: "world \<Rightarrow> string list \<Rightarrow> string \<Rightarrow> trace \<Rightarrow> (abort + string) \<times> trace" where
  "page_loop w [] markdown t = (Inr markdown, t)"
| "page_loop w (img_path # rest) markdown t =
     (let img_path = replace_backslash img_path;
          t1 = t @ [Log ''__main__'' INFO (''Converting image '' @ img_path @ '' to Markdown'')]
      in case convert_image_to_markdown w img_path t1 of
           (Inl stop, t2) \<Rightarrow> (Inl stop, t2)
         | (Inr fragment, t2) \<Rightarrow> page_loop w rest (markdown @ fragment @ [LF, LF]) t2)"

text \<open>
  The script from line 130 on, after the command line has been read: \<open>input\<close> is the
  named file (a non-empty path) with its content, or the bytes of standard input. The
  result is the exit status and the trace. The script is split in two at line 178.
\<close>

datatype input = File string "byte list" | Stdin "byte list"

definition help_msg :: string where
  "help_msg = ''Usage: python main.py [input.pdf] [output.md] [start_page] [end_page]'' @ [LF]
     @ ''   or: python main.py [start_page] [end_page] < input.pdf''"

text \<open>Lines 179 to 209: rendering, the page loop, the output and the cleanup.\<close>

definition main_convert ::
  "world \<Rightarrow> string \<Rightarrow> string option \<Rightarrow> string \<Rightarrow> int \<Rightarrow> int \<Rightarrow> trace \<Rightarrow> int \<times> trace" where
  "main_convert w output_dir output_path temp_input_path start_page end_page t =
     (let t1 = t @ [Create_worker temp_input_path start_page end_page]
      in case worker w temp_input_path start_page end_page of
           Inl e \<Rightarrow> (1, t1 @ [Log ''__main__'' ERROR e])
         | Inr img_paths \<Rightarrow>
             (case page_loop w (sort img_paths) []
                     (t1 @ [Convert_to_images,
                            Log ''__main__'' INFO ''Image conversion completed'']) of
                (Inl (SystemExit n), t2) \<Rightarrow> (n, t2)
              | (Inr markdown, t2) \<Rightarrow>
                  (let t3 = t2 @ [Log ''__main__'' INFO ''Image conversion to Markdown completed''];
                       t4 = (case output_path of
                               Some path \<Rightarrow>
                                 t3 @ [Write_text path markdown,
                                       Log ''__main__'' INFO (''Markdown saved to '' @ path)]
                             | None \<Rightarrow> t3 @ [Print markdown])
                   in (0, t4 @ [Rmtree output_dir]))))"

text \<open>Lines 130 to 177: reading the input, the work directory, the classification.\<close>

definition main :: "world \<Rightarrow> input \<Rightarrow> string option \<Rightarrow> int \<Rightarrow> int \<Rightarrow> int \<times> trace" where
  "main w inp output_path start_page end_page =
     (case (case inp of
              File input_path data \<Rightarrow> Inr (data, basename input_path)
            | Stdin data \<Rightarrow> if data = [] then Inl () else Inr (data, basename ''<stdin>'')) of
        Inl _ \<Rightarrow> (1, [Log ''__main__'' ERROR ''No input data received'',
                      Log ''__main__'' ERROR help_msg])
      | Inr (input_data, input_filename) \<Rightarrow>
          (let output_dir = ''output/'' @ now w;
               t1 = [Makedirs output_dir]
           in case input_extension input_filename input_data t1 of
                (Inl (SystemExit n), t2) \<Rightarrow> (n, t2)
              | (Inr input_ext, t2) \<Rightarrow>
                  (let temp_input_path = output_dir @ ''/'' @ ''input'' @ input_ext
                   in main_convert w output_dir output_path temp_input_path start_page end_page
                        (t2 @ [Write_bytes temp_input_path input_data]))))"

section \<open>Notions used to state the properties\<close>

text \<open>The last step of the endpoint normalisation, on a URL free of \<open>/models\<close>.\<close>

definition v1_rule :: "string \<Rightarrow> string" where
  "v1_rule b =
     (if endswith b ''/v1'' then b else if endswith b ''/'' then b @ ''v1'' else b @ ''/v1'')"

text \<open>
  The endpoint normalisation as the specification words it: strip a trailing
  \<open>/models\<close>, keep a URL that ends in \<open>/v1\<close>, else append \<open>/v1\<close> with a separating
  slash only if absent. It is compared with \<open>LLMClient_base_url\<close> below.
\<close>

definition spec_normalize :: "string \<Rightarrow> string" where
  "spec_normalize url =
     (let b = (if endswith url ''/models'' then take (length url - length ''/models'') url
               else url)
      in if endswith b ''/v1'' then b
         else if endswith b ''/'' then b @ ''v1''
         else b @ ''/v1'')"

text \<open>The file name and the bytes \<open>main\<close> works on (lines 132 to 144).\<close>

definition input_filename_of :: "input \<Rightarrow> string" where
  "input_filename_of inp =
     (case inp of File input_path data \<Rightarrow> basename input_path | Stdin data \<Rightarrow> basename ''<stdin>'')"

definition input_data_of :: "input \<Rightarrow> byte list" where
  "input_data_of inp = (case inp of File input_path data \<Rightarrow> data | Stdin data \<Rightarrow> data)"

text \<open>
  What \<open>completion\<close> sets up before its retry loop when the API key is set: the client
  it constructs, and the two log lines written on the way.
\<close>

definition completion_client :: "world \<Rightarrow> string \<Rightarrow> LLMClient" where
  "completion_client w model =
     \<lparr>self_api_key = the (OPENAI_API_KEY (getenv w)),
      self_model = (if model \<noteq> [] then model
                    else if falsy (OPENAI_DEFAULT_MODEL (getenv w)) then ''gpt-4o''
                    else the (OPENAI_DEFAULT_MODEL (getenv w))),
      self_base_url = LLMClient_base_url (configured_base_url (OPENAI_API_BASE (getenv w)))\<rparr>"

definition completion_prologue :: "world \<Rightarrow> event list" where
  "completion_prologue w =
     [Log ''__main__'' INFO
        (''Using API base URL: '' @ configured_base_url (OPENAI_API_BASE (getenv w))),
      Log ''core.LLMClient'' INFO
        (''Using API base URL: ''
           @ LLMClient_base_url (configured_base_url (OPENAI_API_BASE (getenv w))))]"

text \<open>The two lines logged for a failed attempt: by the client, and by the retry loop.\<close>

abbreviation api_failure :: "exn \<Rightarrow> event" where
  "api_failure e \<equiv> Log ''core.LLMClient'' ERROR (''API request failed: '' @ e)"

abbreviation llm_failure :: "exn \<Rightarrow> event" where
  "llm_failure e \<equiv> Log ''__main__'' ERROR (''LLM call failed: '' @ e)"

text \<open>The image entry of a file's bytes.\<close>

definition image_entry :: "byte list \<Rightarrow> content_part" where
  "image_entry bytes = Image_url (''data:image/jpeg;base64,'' @ b64encode bytes)"

text \<open>
  The events of \<open>completion\<close>: requests, sleeps, the client's log lines, error lines
  and the lines that report the base URL.
\<close>

fun chatter :: "event \<Rightarrow> bool" where
  "chatter (Create q) = True"
| "chatter (Sleep d) = True"
| "chatter (Log name lv msg) =
     (name = ''core.LLMClient'' \<or> lv = ERROR \<or> prefix ''Using API base URL: '' msg)"
| "chatter e = False"

text \<open>
  The texts that reach the output file or standard output, in order: \<open>f.write\<close> writes
  its argument, \<open>print\<close> writes its argument and a line feed.
\<close>

fun written :: "event \<Rightarrow> string option" where
  "written (Print text) = Some (text @ [LF])"
| "written (Write_text path text) = Some text"
| "written e = None"

text \<open>What lines 200 to 205 deliver of a Markdown document.\<close>

definition delivered :: "string option \<Rightarrow> string \<Rightarrow> string" where
  "delivered output_path markdown =
     (case output_path of Some path \<Rightarrow> markdown | None \<Rightarrow> markdown @ [LF])"

definition outputs :: "trace \<Rightarrow> string list" where
  "outputs t = List.map_filter written t"

text \<open>The line the page loop logs before it converts an image (line 194).\<close>

definition announce :: "string \<Rightarrow> event" where
  "announce img_path =
     Log ''__main__'' INFO (''Converting image '' @ img_path @ '' to Markdown'')"

text \<open>
  The image paths whose conversion the page loop announced (line 194), in order.
\<close>

fun converting :: "event \<Rightarrow> string option" where
  "converting (Log name lv msg) =
     (if name = ''__main__'' \<and> lv = INFO \<and> prefix ''Converting image '' msg
         \<and> suffix '' to Markdown'' (drop (length ''Converting image '') msg)
      then Some (take (length msg - length ''Converting image '' - length '' to Markdown'')
                   (drop (length ''Converting image '') msg))
      else None)"
| "converting e = None"

definition converted :: "trace \<Rightarrow> string list" where
  "converted t = List.map_filter converting t"

text \<open>
  The fragment of each page, in the order of the list: what
  \<open>convert_image_to_markdown\<close> returns for it when its turn comes.
\<close>

fun fragments :: "world \<Rightarrow> string list \<Rightarrow> trace \<Rightarrow> string list" where
  "fragments w [] t = []"
| "fragments w (img_path # rest) t =
     (case convert_image_to_markdown w (replace_backslash img_path)
             (t @ [Log ''__main__'' INFO
                     (''Converting image '' @ replace_backslash img_path @ '' to Markdown'')]) of
        (Inl stop, t') \<Rightarrow> []
      | (Inr fragment, t') \<Rightarrow> fragment # fragments w rest t')"

text \<open>
  The two optional arguments of \<open>LLMClient.completion\<close> as the code reads them: no list
  of paths is an empty list, no system prompt is the empty text.
\<close>

definition paths_of :: "string list option \<Rightarrow> string list" where
  "paths_of image_paths = (case image_paths of None \<Rightarrow> [] | Some paths \<Rightarrow> paths)"

definition system_text :: "string option \<Rightarrow> string" where
  "system_text system_prompt = (case system_prompt of None \<Rightarrow> [] | Some s \<Rightarrow> s)"

text \<open>
  The messages of a page of the pipeline, for the bytes of the page image, and the
  test that a request carries them for the image at a path.
\<close>

definition page_messages :: "byte list \<Rightarrow> message list" where
  "page_messages bytes =
     [\<lparr>role = ''system'', content = Plain []\<rparr>,
      \<lparr>role = ''user'', content = Parts [Text user_prompt, image_entry bytes]\<rparr>]"

definition page_request :: "world \<Rightarrow> string \<Rightarrow> request \<Rightarrow> bool" where
  "page_request w image_path q =
     (case read_file w image_path of
        Inl e \<Rightarrow> False
      | Inr bytes \<Rightarrow> req_messages q = page_messages bytes)"

section \<open>core/Util.py, which is not among the sources\<close>

text \<open>
  Modelled from the spec: \<open>remove_markdown_warp\<close> of core/Util.py is missing. The
  specification says of it: for each page response, remove a leading/trailing
  fenced-code-block wrapper whose language tag matches \<open>markdown\<close> (case-insensitive),
  if present; otherwise leave the text unchanged. Its example: the text made of the
  opening fence with the tag, a line feed, \<open># Title\<close>, a line feed and the closing fence
  unwraps to \<open># Title\<close>.
\<close>

definition fence :: string where
  "fence = replicate 3 (CHR 0x60)"

definition remove_markdown_warp :: "string \<Rightarrow> string \<Rightarrow> string" where
  "remove_markdown_warp text language =
     (let opening = fence @ lower language @ [LF];
          closing = [LF] @ fence
      in if length opening + length closing \<le> length text
            \<and> lower (take (length opening) text) = opening
            \<and> suffix closing text
         then take (length text - length opening - length closing) (drop (length opening) text)
         else text)"

section \<open>Example worlds\<close>

definition demo_read_file :: "string \<Rightarrow> exn + byte list" where
  "demo_read_file path =
     (if path = ''page_1.png'' then Inr [0x89, 0x50, 0x4E, 0x47]
      else if path = ''page_2.png'' then Inr [0x4D, 0x61, 0x6E]
      else if path = ''page_10.png'' then Inr [0x42, 0x4D]
      else Inl ''No such file or directory'')"

text \<open>
  A two-page document: the first request is answered with \<open># A\<close>, every later one
  fails.
\<close>

definition demo_world :: world where
  "demo_world =
     \<lparr>getenv = \<lparr>OPENAI_API_KEY = Some ''sk-demo'', OPENAI_API_BASE = None,
                 OPENAI_DEFAULT_MODEL = None\<rparr>,
      create = (\<lambda>n q. if n = 0 then Inr ''# A'' else Inl ''Connection error.''),
      read_file = demo_read_file,
      worker = (\<lambda>path start_page end_page. Inr [''page_2.png'', ''page_1.png'']),
      unwrap = remove_markdown_warp,
      now = ''20240101120000''\<rparr>"

text \<open>The same with a provider that fails twice and then answers.\<close>

definition flaky_world :: world where
  "flaky_world =
     demo_world\<lparr>create := (\<lambda>n q. if n = 2 then Inr ''# B'' else Inl ''Connection error.'')\<rparr>"

text \<open>The same with a provider that always fails.\<close>

definition down_world :: world where
  "down_world = demo_world\<lparr>create := (\<lambda>n q. Inl ''Connection error.'')\<rparr>"

text \<open>The same without an API key.\<close>

definition keyless_world :: world where
  "keyless_world =
     demo_world\<lparr>getenv := \<lparr>OPENAI_API_KEY = None, OPENAI_API_BASE = None,
                              OPENAI_DEFAULT_MODEL = None\<rparr>\<rparr>"

text \<open>The same with three pages, returned out of order.\<close>

definition three_page_world :: world where
  "three_page_world =
     demo_world\<lparr>worker := (\<lambda>path start_page end_page.
                               Inr [''page_2.png'', ''page_10.png'', ''page_1.png''])\<rparr>"

definition demo_pdf :: "byte list" where
  "demo_pdf = [0x25, 0x50, 0x44, 0x46, 0x2D, 0x31, 0x2E, 0x37]"

text \<open>
  The messages and the request of the example worlds for the instruction
  \<open>Transcribe.\<close> and the image page_1.png.
\<close>

definition demo_messages :: "message list" where
  "demo_messages =
     [\<lparr>role = ''system'', content = Plain []\<rparr>,
      \<lparr>role = ''user'',
       content = Parts [Text ''Transcribe.'', Image_url ''data:image/jpeg;base64,iVBORw=='']\<rparr>]"

definition demo_request :: request where
  "demo_request =
     \<lparr>req_model = ''gpt-4o'', req_messages = demo_messages, req_temperature = 3 / 10,
      req_max_tokens = 8192, req_extra_headers = []\<rparr>"

text \<open>
  The three pages again, with a provider that answers \<open>PAGE n\<close> for the image of page
  \<open>n\<close>, and the request of the pipeline for page_1.png.
\<close>

definition echo_create :: "nat \<Rightarrow> request \<Rightarrow> exn + string" where
  "echo_create n q =
     (if req_messages q = page_messages [0x89, 0x50, 0x4E, 0x47] then Inr ''PAGE 1''
      else if req_messages q = page_messages [0x4D, 0x61, 0x6E] then Inr ''PAGE 2''
      else if req_messages q = page_messages [0x42, 0x4D] then Inr ''PAGE 10''
      else Inl ''Bad request'')"

definition echo_world :: world where
  "echo_world = three_page_world\<lparr>create := echo_create\<rparr>"

definition demo_page_request :: request where
  "demo_page_request =
     chat_request (completion_client demo_world []) (page_messages [0x89, 0x50, 0x4E, 0x47])
       (3 / 10) 8192"

section \<open>Substring search\<close>

lemma py_in_sublist: "py_in sub s = sublist sub s"
  by (induction s) (simp_all add: sublist_Cons_right)

lemma py_in_length: "py_in sub s \<Longrightarrow> length sub \<le> length s"
  by (induction s) (auto dest: prefix_length_le)

lemma endswith_py_in: "endswith s sub \<Longrightarrow> py_in sub s"
  by (simp add: endswith_def py_in_sublist)

lemma split_head_absent: "\<not> py_in sep s \<Longrightarrow> split_head sep s = s"
  by (induction s) auto

lemma split_head_prefix: "prefix (split_head sep s) s"
  by (induction s) auto

lemma split_head_clean: "sep \<noteq> [] \<Longrightarrow> \<not> py_in sep (split_head sep s)"
proof (induction s)
  case Nil
  then show ?case by simp
next
  case (Cons c cs)
  show ?case
  proof (cases "prefix sep (c # cs)")
    case True
    with Cons.prems show ?thesis by simp
  next
    case False
    have "\<not> prefix sep (c # split_head sep cs)"
    proof
      assume "prefix sep (c # split_head sep cs)"
      moreover have "prefix (c # split_head sep cs) (c # cs)"
        by (simp add: split_head_prefix)
      ultimately have "prefix sep (c # cs)" by (rule prefix_order.trans)
      with False show False by simp
    qed
    with False Cons show ?thesis by simp
  qed
qed

text \<open>Where the cut falls: the separator follows it, and does not start before it.\<close>

lemma split_head_found: "py_in sep s \<Longrightarrow> \<exists>a. s = split_head sep s @ sep @ a"
  by (induction s) (auto simp: prefix_def)

lemma split_head_first:
  "i < length (split_head sep s) \<Longrightarrow> \<not> prefix sep (drop i s)"
proof (induction s arbitrary: i)
  case Nil
  then show ?case by simp
next
  case (Cons c cs)
  then show ?case by (cases i) (auto split: if_splits)
qed

lemma prefix_append_long: "length sep \<le> length s \<Longrightarrow> prefix sep (s @ x) = prefix sep s"
  by (auto simp: prefix_append)

lemma split_head_append: "py_in sep p \<Longrightarrow> split_head sep (p @ x) = split_head sep p"
proof (induction p)
  case Nil
  then show ?case by (cases x) auto
next
  case (Cons c cs)
  from Cons.prems have "length sep \<le> length (c # cs)" by (rule py_in_length)
  then have eq: "prefix sep ((c # cs) @ x) = prefix sep (c # cs)"
    by (rule prefix_append_long)
  show ?case
  proof (cases "prefix sep (c # cs)")
    case True
    with eq show ?thesis by simp
  next
    case False
    with Cons.prems have "py_in sep cs" by simp
    with Cons.IH False eq show ?thesis by simp
  qed
qed

lemma py_in_append: "py_in sep p \<Longrightarrow> py_in sep (p @ x)"
  by (auto simp: py_in_sublist sublist_append)

section \<open>The separator \<open>/models\<close>\<close>

lemma models_straddle:
  "prefix ''/models'' (p @ ''/models'' @ a) \<Longrightarrow> p \<noteq> [] \<Longrightarrow> prefix ''/models'' p"
  by (auto simp: prefix_append Cons_eq_append_conv)

lemma split_head_models_at:
  "\<not> py_in ''/models'' p \<Longrightarrow> split_head ''/models'' (p @ ''/models'' @ a) = p"
proof (induction p)
  case Nil
  then show ?case by simp
next
  case (Cons c cs)
  from Cons.prems have np: "\<not> prefix ''/models'' (c # cs)" and nin: "\<not> py_in ''/models'' cs"
    by simp_all
  have "\<not> prefix ''/models'' ((c # cs) @ ''/models'' @ a)"
    using models_straddle [of "c # cs" a] np by blast
  with Cons.IH [OF nin] show ?case by simp
qed

lemma split_head_models_any:
  "split_head ''/models'' (p @ ''/models'' @ a) = split_head ''/models'' p"
proof (cases "py_in ''/models'' p")
  case True
  then show ?thesis by (rule split_head_append)
next
  case False
  have l: "split_head ''/models'' (p @ ''/models'' @ a) = p"
    using False by (rule split_head_models_at)
  have r: "split_head ''/models'' p = p"
    using False by (rule split_head_absent)
  show ?thesis by (simp only: l r)
qed

lemma no_models_slash_v1: "\<not> py_in ''/models'' b \<Longrightarrow> \<not> py_in ''/models'' (b @ ''/v1'')"
  by (auto simp: py_in_sublist sublist_append sublist_Cons_right Cons_eq_append_conv prefix_Cons)

lemma no_models_v1: "\<not> py_in ''/models'' b \<Longrightarrow> \<not> py_in ''/models'' (b @ ''v1'')"
  by (auto simp: py_in_sublist sublist_append sublist_Cons_right Cons_eq_append_conv prefix_Cons)

section \<open>The endpoint URL\<close>

lemma base_url_cases:
  "LLMClient_base_url u = v1_rule (if py_in ''/models'' u then split_head ''/models'' u else u)"
  by (simp add: LLMClient_base_url_def v1_rule_def Let_def)

lemma base_url_split: "LLMClient_base_url u = v1_rule (split_head ''/models'' u)"
  by (simp add: base_url_cases split_head_absent)

lemma v1_rule_ends: "endswith (v1_rule b) ''/v1''"
  by (auto simp: v1_rule_def endswith_def suffix_def)

lemma v1_rule_clean: "\<not> py_in ''/models'' b \<Longrightarrow> \<not> py_in ''/models'' (v1_rule b)"
  by (simp add: v1_rule_def no_models_slash_v1 no_models_v1)

lemma v1_rule_fix: "endswith b ''/v1'' \<Longrightarrow> v1_rule b = b"
  by (simp add: v1_rule_def)

lemma spec_normalize_cases:
  "spec_normalize u =
     v1_rule (if endswith u ''/models'' then take (length u - length ''/models'') u else u)"
  by (simp add: spec_normalize_def v1_rule_def Let_def)

section \<open>Building the messages\<close>

lemma append_images_ok:
  "map (read_file w) paths = map Inr datas \<Longrightarrow>
   append_images w user_content paths = Inr (user_content @ map image_entry datas)"
proof (induction paths arbitrary: user_content datas)
  case Nil
  then show ?case by simp
next
  case (Cons p ps)
  then obtain d ds where datas: "datas = d # ds" and d: "read_file w p = Inr d"
    and ds: "map (read_file w) ps = map Inr ds"
    by (cases datas) auto
  show ?case
    using Cons.IH [OF ds] by (simp add: datas d encode_image_def image_entry_def)
qed

lemma append_images_Inr:
  "append_images w user_content paths = Inr parts \<Longrightarrow>
   \<exists>datas. map (read_file w) paths = map Inr datas
         \<and> parts = user_content @ map image_entry datas"
proof (induction paths arbitrary: user_content)
  case Nil
  then show ?case by simp
next
  case (Cons p ps)
  from Cons.prems obtain d where d: "read_file w p = Inr d"
    by (cases "read_file w p") (simp_all add: encode_image_def)
  with Cons.prems
  have "append_images w (user_content @ [image_entry d]) ps = Inr parts"
    by (simp add: encode_image_def image_entry_def)
  from Cons.IH [OF this] obtain ds where ds: "map (read_file w) ps = map Inr ds"
    and parts: "parts = (user_content @ [image_entry d]) @ map image_entry ds"
    by blast
  have "map (read_file w) (p # ps) = map Inr (d # ds)"
    by (simp add: d ds)
  moreover have "parts = user_content @ map image_entry (d # ds)"
    by (simp add: parts)
  ultimately show ?case by blast
qed

lemma build_messages_ok:
  assumes "map (read_file w) (paths_of image_paths) = map Inr datas"
  shows "build_messages w user_message system_prompt image_paths =
         Inr [\<lparr>role = ''system'', content = Plain (system_text system_prompt)\<rparr>,
              \<lparr>role = ''user'', content = Parts (Text user_message # map image_entry datas)\<rparr>]"
proof (cases image_paths)
  case None
  with assms show ?thesis
    by (simp add: build_messages_def paths_of_def system_text_def)
next
  case (Some paths)
  with assms have "map (read_file w) paths = map Inr datas"
    by (simp add: paths_of_def)
  then have "append_images w [Text user_message] paths
             = Inr ([Text user_message] @ map image_entry datas)"
    by (rule append_images_ok)
  with Some show ?thesis
    by (cases paths) (simp_all add: build_messages_def system_text_def)
qed

lemma build_messages_Inr:
  assumes "build_messages w user_message system_prompt image_paths = Inr msgs"
  shows "\<exists>datas. map (read_file w) (paths_of image_paths) = map Inr datas
           \<and> msgs = [\<lparr>role = ''system'', content = Plain (system_text system_prompt)\<rparr>,
                      \<lparr>role = ''user'',
                       content = Parts (Text user_message # map image_entry datas)\<rparr>]"
proof -
  have "\<exists>parts. append_images w [Text user_message] (paths_of image_paths) = Inr parts"
    using assms
    by (cases image_paths)
       (auto simp: build_messages_def paths_of_def split: sum.splits if_splits)
  then obtain parts
    where "append_images w [Text user_message] (paths_of image_paths) = Inr parts"
    by blast
  from append_images_Inr [OF this] obtain datas
    where datas: "map (read_file w) (paths_of image_paths) = map Inr datas"
    by blast
  from build_messages_ok [OF datas, of user_message system_prompt] assms
  have "msgs = [\<lparr>role = ''system'', content = Plain (system_text system_prompt)\<rparr>,
                \<lparr>role = ''user'', content = Parts (Text user_message # map image_entry datas)\<rparr>]"
    by simp
  with datas show ?thesis by blast
qed

lemma LLMClient_completion_request:
  assumes "build_messages w user_message system_prompt image_paths = Inr msgs"
  shows "\<exists>rest. snd (LLMClient_completion w self user_message system_prompt image_paths
                        temperature max_tokens t)
               = t @ Create (chat_request self msgs temperature max_tokens) # rest"
  using assms by (simp add: LLMClient_completion_def Let_def split: sum.splits)

section \<open>Counting requests\<close>

lemma requests_sent_append [simp]:
  "requests_sent (t @ u) = requests_sent t + requests_sent u"
  by (simp add: requests_sent_def)

lemma requests_sent_Nil [simp]: "requests_sent [] = 0"
  by (simp add: requests_sent_def)

lemma requests_sent_Cons [simp]:
  "requests_sent (e # t) = (if is_create e then 1 else 0) + requests_sent t"
  by (simp add: requests_sent_def)

lemma requests_sent_prologue [simp]: "requests_sent (completion_prologue w) = 0"
  by (simp add: completion_prologue_def)

section \<open>The client call and the retry loop\<close>

lemma client_call_raises:
  "build_messages w m sp ips = Inl e \<Longrightarrow>
   LLMClient_completion w self m sp ips temp mt t = (Inl e, t)"
  by (simp add: LLMClient_completion_def)

lemma client_call_fails:
  "build_messages w m sp ips = Inr msgs \<Longrightarrow>
   create w (requests_sent t) (chat_request self msgs temp mt) = Inl e \<Longrightarrow>
   LLMClient_completion w self m sp ips temp mt t =
     (Inl e, t @ [Create (chat_request self msgs temp mt), api_failure e])"
  by (simp add: LLMClient_completion_def)

lemma client_call_answers:
  "build_messages w m sp ips = Inr msgs \<Longrightarrow>
   create w (requests_sent t) (chat_request self msgs temp mt) = Inr r \<Longrightarrow>
   LLMClient_completion w self m sp ips temp mt t =
     (Inr r, t @ [Create (chat_request self msgs temp mt)])"
  by (simp add: LLMClient_completion_def)

lemma retry_loop_fails:
  "call t = (Inl e, t') \<Longrightarrow>
   retry_loop (Suc n) call t = retry_loop n call (t' @ [llm_failure e, Sleep (1 / 2)])"
  by simp

lemma retry_loop_answers:
  "call t = (Inr r, t') \<Longrightarrow> retry_loop (Suc n) call t = (r, t')"
  by simp

lemma completion_eq:
  assumes "\<not> falsy (OPENAI_API_KEY (getenv w))"
  shows "completion w m model sp ips temp mt n t =
           (Inr (fst (retry_loop n
                        (LLMClient_completion w (completion_client w model) m (Some sp) ips
                           temp mt) (t @ completion_prologue w))),
            snd (retry_loop n
                   (LLMClient_completion w (completion_client w model) m (Some sp) ips
                      temp mt) (t @ completion_prologue w)))"
  using assms
  by (simp add: completion_def LLMClient_init_def completion_client_def
        completion_prologue_def Let_def split: prod.splits)

lemma completion_keyless:
  "falsy (OPENAI_API_KEY (getenv w)) \<Longrightarrow>
   completion w m model sp ips temp mt n t =
     (Inl (SystemExit 1),
      t @ [Log ''__main__'' ERROR ''Please set the OPENAI_API_KEY environment variables''])"
  by (simp add: completion_def)

section \<open>What the events of a completion are\<close>

lemma client_call_chatter:
  "\<exists>new. snd (LLMClient_completion w self m sp ips temp mt t) = t @ new
         \<and> list_all chatter new"
  by (auto simp: LLMClient_completion_def Let_def split: sum.splits)

lemma retry_loop_chatter:
  assumes "\<And>t. \<exists>new. snd (call t) = t @ new \<and> list_all chatter new"
  shows "\<exists>new. snd (retry_loop n call t) = t @ new \<and> list_all chatter new"
proof (induction n arbitrary: t)
  case 0
  show ?case by simp
next
  case (Suc n)
  obtain res t' where call: "call t = (res, t')" by (cases "call t")
  from assms [of t] call obtain new where t': "t' = t @ new" and new: "list_all chatter new"
    by auto
  show ?case
  proof (cases res)
    case (Inr r)
    with call t' new show ?thesis by simp
  next
    case (Inl e)
    from Suc.IH [of "t' @ [llm_failure e, Sleep (1 / 2)]"] obtain more
      where more: "snd (retry_loop n call (t' @ [llm_failure e, Sleep (1 / 2)]))
                   = (t' @ [llm_failure e, Sleep (1 / 2)]) @ more"
        and chat: "list_all chatter more"
      by blast
    have "snd (retry_loop (Suc n) call t) = t @ (new @ [llm_failure e, Sleep (1 / 2)] @ more)"
      using call Inl more t' by simp
    moreover have "list_all chatter (new @ [llm_failure e, Sleep (1 / 2)] @ more)"
      using new chat by simp
    ultimately show ?thesis by blast
  qed
qed

lemma completion_chatter:
  "\<exists>new. snd (completion w m model sp ips temp mt n t) = t @ new \<and> list_all chatter new"
proof (cases "falsy (OPENAI_API_KEY (getenv w))")
  case True
  then show ?thesis by (simp add: completion_keyless)
next
  case False
  from retry_loop_chatter [of "LLMClient_completion w (completion_client w model) m (Some sp)
      ips temp mt" n "t @ completion_prologue w", OF client_call_chatter]
  obtain new where new: "snd (retry_loop n (LLMClient_completion w (completion_client w model)
      m (Some sp) ips temp mt) (t @ completion_prologue w)) = (t @ completion_prologue w) @ new"
    and chat: "list_all chatter new"
    by blast
  have "snd (completion w m model sp ips temp mt n t) = t @ (completion_prologue w @ new)"
    using new by (simp add: completion_eq [OF False])
  moreover have "list_all chatter (completion_prologue w @ new)"
    using chat by (simp add: completion_prologue_def)
  ultimately show ?thesis by blast
qed

lemma convert_chatter:
  "\<exists>new. snd (convert_image_to_markdown w p t) = t @ new \<and> list_all chatter new"
  using completion_chatter [of w user_prompt "[]" "[]" "Some [p]" "3 / 10" 8192 3 t]
  by (auto simp: convert_image_to_markdown_def split: prod.splits sum.splits)

lemma convert_ok:
  assumes "\<not> falsy (OPENAI_API_KEY (getenv w))"
  shows "\<exists>fragment. fst (convert_image_to_markdown w p t) = Inr fragment"
  by (simp add: convert_image_to_markdown_def completion_eq [OF assms])

lemma convert_keyless:
  "falsy (OPENAI_API_KEY (getenv w)) \<Longrightarrow>
   convert_image_to_markdown w p t =
     (Inl (SystemExit 1),
      t @ [Log ''__main__'' ERROR ''Please set the OPENAI_API_KEY environment variables''])"
  by (simp add: convert_image_to_markdown_def completion_keyless)

section \<open>Observing a trace\<close>

lemma outputs_append [simp]: "outputs (t @ u) = outputs t @ outputs u"
  by (simp add: outputs_def List.map_filter_def)

lemma converted_append [simp]: "converted (t @ u) = converted t @ converted u"
  by (simp add: converted_def List.map_filter_def)

lemma chatter_written: "chatter e \<Longrightarrow> written e = None"
  by (cases e) simp_all

lemma chatter_converting: "chatter e \<Longrightarrow> converting e = None"
  by (cases e) (auto simp: prefix_def)

lemma outputs_chatter: "list_all chatter new \<Longrightarrow> outputs new = []"
  by (induction new) (simp_all add: outputs_def chatter_written)

lemma converted_chatter: "list_all chatter new \<Longrightarrow> converted new = []"
  by (induction new) (simp_all add: converted_def chatter_converting)

lemma requests_sent_filter: "requests_sent t = length (filter is_create t)"
  by (simp add: requests_sent_def)

lemma converting_announce: "converting (announce p) = Some p"
  by (simp add: announce_def suffix_def)

lemma converted_announce [simp]: "converted (announce p # t) = p # converted t"
  unfolding converted_def by (simp only: map_filter_simps converting_announce option.case)

lemma outputs_announce [simp]: "outputs (announce p # t) = outputs t"
  by (simp add: outputs_def announce_def)

lemma outputs_Nil [simp]: "outputs [] = []"
  by (simp add: outputs_def)

lemma converted_Nil [simp]: "converted [] = []"
  by (simp add: converted_def)

lemma requests_sent_announce [simp]: "is_create (announce p) = False"
  by (simp add: announce_def)

lemma page_loop_Cons:
  "page_loop w (p # ps) markdown t =
     (case convert_image_to_markdown w (replace_backslash p)
             (t @ [announce (replace_backslash p)]) of
        (Inl stop, t2) \<Rightarrow> (Inl stop, t2)
      | (Inr fragment, t2) \<Rightarrow> page_loop w ps (markdown @ fragment @ [LF, LF]) t2)"
  by (simp add: announce_def Let_def)

lemma fragments_Cons:
  "fragments w (p # ps) t =
     (case convert_image_to_markdown w (replace_backslash p)
             (t @ [announce (replace_backslash p)]) of
        (Inl stop, t') \<Rightarrow> []
      | (Inr fragment, t') \<Rightarrow> fragment # fragments w ps t')"
  by (simp add: announce_def)

section \<open>The page loop\<close>

lemma page_loop_fragments:
  assumes key: "\<not> falsy (OPENAI_API_KEY (getenv w))"
  shows "fst (page_loop w paths markdown t) =
           Inr (markdown @ concat (map (\<lambda>fragment. fragment @ [LF, LF]) (fragments w paths t)))
         \<and> length (fragments w paths t) = length paths"
proof (induction paths arbitrary: markdown t)
  case Nil
  show ?case by simp
next
  case (Cons p ps)
  let ?t1 = "t @ [announce (replace_backslash p)]"
  obtain res t2 where conv: "convert_image_to_markdown w (replace_backslash p) ?t1 = (res, t2)"
    by (cases "convert_image_to_markdown w (replace_backslash p) ?t1")
  from convert_ok [OF key, of "replace_backslash p" ?t1] conv
  obtain fragment where res: "res = Inr fragment" by auto
  from Cons.IH [of "markdown @ fragment @ [LF, LF]" t2] conv res
  show ?case by (simp add: page_loop_Cons fragments_Cons del: page_loop.simps(2) fragments.simps(2))
qed

lemma page_loop_trace:
  "\<exists>new. snd (page_loop w paths markdown t) = t @ new
         \<and> outputs new = []
         \<and> prefix (converted new) (map replace_backslash paths)
         \<and> (\<not> falsy (OPENAI_API_KEY (getenv w)) \<longrightarrow>
              converted new = map replace_backslash paths)"
proof (induction paths arbitrary: markdown t)
  case Nil
  show ?case by simp
next
  case (Cons p ps)
  let ?p = "replace_backslash p"
  let ?t1 = "t @ [announce ?p]"
  obtain res t2 where conv: "convert_image_to_markdown w ?p ?t1 = (res, t2)"
    by (cases "convert_image_to_markdown w ?p ?t1")
  from convert_chatter [of w ?p ?t1] conv obtain chat
    where t2: "t2 = ?t1 @ chat" and chat: "list_all chatter chat"
    by auto
  show ?case
  proof (cases res)
    case (Inl stop)
    have keyless: "falsy (OPENAI_API_KEY (getenv w))"
    proof (rule ccontr)
      assume "\<not> falsy (OPENAI_API_KEY (getenv w))"
      from convert_ok [OF this, of ?p ?t1] conv Inl show False by simp
    qed
    have "snd (page_loop w (p # ps) markdown t) = t @ ([announce ?p] @ chat)"
      using conv Inl t2 by (simp add: page_loop_Cons fragments_Cons del: page_loop.simps(2) fragments.simps(2))
    moreover have "outputs ([announce ?p] @ chat) = []"
      using chat by (simp add: outputs_chatter)
    moreover have "converted ([announce ?p] @ chat) = [?p]"
      using chat by (simp add: converted_chatter)
    ultimately show ?thesis
      using keyless by (intro exI [of _ "[announce ?p] @ chat"]) simp
  next
    case (Inr fragment)
    from Cons.IH [of "markdown @ fragment @ [LF, LF]" t2] obtain more
      where more: "snd (page_loop w ps (markdown @ fragment @ [LF, LF]) t2) = t2 @ more"
        and out: "outputs more = []"
        and pre: "prefix (converted more) (map replace_backslash ps)"
        and all: "\<not> falsy (OPENAI_API_KEY (getenv w)) \<longrightarrow>
                    converted more = map replace_backslash ps"
      by blast
    have "snd (page_loop w (p # ps) markdown t) = t @ ([announce ?p] @ chat @ more)"
      using conv Inr t2 more by (simp add: page_loop_Cons fragments_Cons del: page_loop.simps(2) fragments.simps(2))
    moreover have "outputs ([announce ?p] @ chat @ more) = []"
      using chat out by (simp add: outputs_chatter)
    moreover have "converted ([announce ?p] @ chat @ more) = ?p # converted more"
      using chat by (simp add: converted_chatter)
    ultimately show ?thesis
      using pre all by (intro exI [of _ "[announce ?p] @ chat @ more"]) simp
  qed
qed

lemma page_loop_keyless:
  assumes "falsy (OPENAI_API_KEY (getenv w))"
  shows "page_loop w (p # ps) markdown t =
           (Inl (SystemExit 1),
            t @ [announce (replace_backslash p),
                 Log ''__main__'' ERROR ''Please set the OPENAI_API_KEY environment variables''])"
  by (simp add: page_loop_Cons convert_keyless [OF assms] del: page_loop.simps(2))

section \<open>The script\<close>

lemma converted_other: "converting e = None \<Longrightarrow> converted (e # t) = converted t"
  by (simp add: converted_def)

lemma outputs_Cons:
  "outputs (e # t) = (case written e of None \<Rightarrow> outputs t | Some text \<Rightarrow> text # outputs t)"
  by (simp add: outputs_def split: option.splits)

lemma converted_Cons:
  "converted (e # t) = (case converting e of None \<Rightarrow> converted t | Some p \<Rightarrow> p # converted t)"
  by (simp add: converted_def split: option.splits)

lemma main_convert_rejected:
  "worker w temp start_page end_page = Inl e \<Longrightarrow>
   main_convert w output_dir output_path temp start_page end_page t =
     (1, t @ [Create_worker temp start_page end_page, Log ''__main__'' ERROR e])"
  by (simp add: main_convert_def)

lemma main_convert_rendered:
  assumes "worker w temp start_page end_page = Inr img_paths"
  shows "main_convert w output_dir output_path temp start_page end_page t =
     (case page_loop w (sort img_paths) []
             (t @ [Create_worker temp start_page end_page, Convert_to_images,
                   Log ''__main__'' INFO ''Image conversion completed'']) of
        (Inl (SystemExit n), t2) \<Rightarrow> (n, t2)
      | (Inr markdown, t2) \<Rightarrow>
          (0, t2 @ Log ''__main__'' INFO ''Image conversion to Markdown completed''
                # (case output_path of
                     Some path \<Rightarrow> [Write_text path markdown,
                                    Log ''__main__'' INFO (''Markdown saved to '' @ path)]
                   | None \<Rightarrow> [Print markdown])
                @ [Rmtree output_dir]))"
  using assms
  by (simp add: main_convert_def Let_def split: prod.splits sum.splits abort.splits
        option.splits)

lemma main_convert_key:
  assumes key: "\<not> falsy (OPENAI_API_KEY (getenv w))"
    and rendered: "worker w temp start_page end_page = Inr img_paths"
  shows "fst (main_convert w output_dir output_path temp start_page end_page t) = 0
    \<and> outputs (snd (main_convert w output_dir output_path temp start_page end_page t)) =
        outputs t @ [delivered output_path (concat (map (\<lambda>fragment. fragment @ [LF, LF])
          (fragments w (sort img_paths)
             (t @ [Create_worker temp start_page end_page, Convert_to_images,
                   Log ''__main__'' INFO ''Image conversion completed'']))))]
    \<and> converted (snd (main_convert w output_dir output_path temp start_page end_page t)) =
        converted t @ map replace_backslash (sort img_paths)"
proof -
  let ?t1 = "t @ [Create_worker temp start_page end_page, Convert_to_images,
                  Log ''__main__'' INFO ''Image conversion completed'']"
  let ?md = "concat (map (\<lambda>fragment. fragment @ [LF, LF]) (fragments w (sort img_paths) ?t1))"
  obtain res t2 where loop: "page_loop w (sort img_paths) [] ?t1 = (res, t2)"
    by (cases "page_loop w (sort img_paths) [] ?t1")
  from page_loop_fragments [OF key, of "sort img_paths" "[]" ?t1] loop
  have res: "res = Inr ?md" by simp
  from page_loop_trace [of w "sort img_paths" "[]" ?t1] loop key obtain new
    where t2: "t2 = ?t1 @ new" and out: "outputs new = []"
      and conv: "converted new = map replace_backslash (sort img_paths)"
    by auto
  have o1: "outputs ?t1 = outputs t" and c1: "converted ?t1 = converted t"
    by (simp_all add: outputs_Cons converted_Cons)
  show ?thesis
    unfolding main_convert_rendered [OF rendered] loop res t2
    using out conv o1 c1
    by (cases output_path) (simp_all add: outputs_Cons converted_Cons delivered_def)
qed

lemma main_convert_order:
  assumes rendered: "worker w temp start_page end_page = Inr img_paths"
  shows "prefix (converted (snd (main_convert w output_dir output_path temp start_page
                                   end_page t)))
           (converted t @ map replace_backslash (sort img_paths))"
proof (cases "falsy (OPENAI_API_KEY (getenv w))")
  case False
  from main_convert_key [OF False rendered] show ?thesis by simp
next
  case True
  let ?t1 = "t @ [Create_worker temp start_page end_page, Convert_to_images,
                  Log ''__main__'' INFO ''Image conversion completed'']"
  have c1: "converted ?t1 = converted t"
    by (simp add: converted_Cons)
  show ?thesis
  proof (cases "sort img_paths")
    case Nil
    then show ?thesis
      unfolding main_convert_rendered [OF rendered]
      by (cases output_path) (simp_all add: converted_Cons c1)
  next
    case (Cons p ps)
    have "converted (snd (main_convert w output_dir output_path temp start_page end_page t))
          = converted t @ [replace_backslash p]"
      unfolding main_convert_rendered [OF rendered] Cons page_loop_keyless [OF True]
      by (simp add: converted_other)
    with Cons show ?thesis by simp
  qed
qed

lemma main_convert_keyless:
  assumes keyless: "falsy (OPENAI_API_KEY (getenv w))"
    and rendered: "worker w temp start_page end_page = Inr img_paths"
    and first: "sort img_paths = p # ps"
  shows "main_convert w output_dir output_path temp start_page end_page t =
           (1, t @ [Create_worker temp start_page end_page, Convert_to_images,
                    Log ''__main__'' INFO ''Image conversion completed'',
                    Log ''__main__'' INFO
                      (''Converting image '' @ replace_backslash p @ '' to Markdown''),
                    Log ''__main__'' ERROR
                      ''Please set the OPENAI_API_KEY environment variables''])"
  unfolding main_convert_rendered [OF rendered] first page_loop_keyless [OF keyless]
  by (simp add: announce_def)

lemma main_convert_keyless_requests:
  assumes keyless: "falsy (OPENAI_API_KEY (getenv w))"
  shows "requests_sent (snd (main_convert w output_dir output_path temp start_page end_page t))
         = requests_sent t"
proof (cases "worker w temp start_page end_page")
  case (Inl e)
  then show ?thesis by (simp add: main_convert_rejected)
next
  case (Inr img_paths)
  show ?thesis
  proof (cases "sort img_paths")
    case Nil
    then show ?thesis
      unfolding main_convert_rendered [OF Inr]
      by (cases output_path) simp_all
  next
    case (Cons p ps)
    show ?thesis
      by (simp add: main_convert_keyless [OF keyless Inr Cons])
  qed
qed

lemma input_extension_requests:
  "requests_sent (snd (input_extension input_filename input_data t)) = requests_sent t"
  by (simp add: input_extension_def Let_def)

lemma main_classified:
  assumes "inp \<noteq> Stdin []"
    and "input_extension (input_filename_of inp) (input_data_of inp)
           [Makedirs (''output/'' @ now w)] = (Inr input_ext, t)"
  shows "main w inp output_path start_page end_page =
           main_convert w (''output/'' @ now w) output_path
             (''output/'' @ now w @ ''/input'' @ input_ext) start_page end_page
             (t @ [Write_bytes (''output/'' @ now w @ ''/input'' @ input_ext)
                     (input_data_of inp)])"
  using assms
  by (cases inp) (simp_all add: main_def input_filename_of_def input_data_of_def Let_def)

lemma main_unclassified:
  assumes "inp \<noteq> Stdin []"
    and "input_extension (input_filename_of inp) (input_data_of inp)
           [Makedirs (''output/'' @ now w)] = (Inl (SystemExit n), t)"
  shows "main w inp output_path start_page end_page = (n, t)"
  using assms
  by (cases inp) (simp_all add: main_def input_filename_of_def input_data_of_def Let_def)

lemma main_keyless_requests:
  assumes keyless: "falsy (OPENAI_API_KEY (getenv w))"
  shows "requests_sent (snd (main w inp output_path start_page end_page)) = 0"
proof (cases "inp = Stdin []")
  case True
  then show ?thesis by (simp add: main_def)
next
  case False
  obtain res t where cls: "input_extension (input_filename_of inp) (input_data_of inp)
           [Makedirs (''output/'' @ now w)] = (res, t)"
    by (cases "input_extension (input_filename_of inp) (input_data_of inp)
           [Makedirs (''output/'' @ now w)]")
  from input_extension_requests [of "input_filename_of inp" "input_data_of inp"
      "[Makedirs (''output/'' @ now w)]"] cls
  have t: "requests_sent t = 0" by simp
  show ?thesis
  proof (cases res)
    case (Inl stop)
    then obtain n where "res = Inl (SystemExit n)" by (cases stop) simp
    with cls main_unclassified [OF False] t show ?thesis by simp
  next
    case (Inr input_ext)
    with cls main_classified [OF False] t show ?thesis
      by (simp add: main_convert_keyless_requests [OF keyless])
  qed
qed

section \<open>The requests of the page pipeline\<close>

lemma build_page_messages:
  "build_messages w user_prompt (Some []) (Some [p]) = Inr msgs \<Longrightarrow>
   \<exists>bytes. read_file w p = Inr bytes \<and> msgs = page_messages bytes"
  by (cases "read_file w p")
     (auto simp: build_messages_def encode_image_def page_messages_def image_entry_def)

lemma client_call_page:
  assumes "Create q \<in> set (snd (LLMClient_completion w self user_prompt (Some [])
                                    (Some [p]) temp mt t))"
  shows "Create q \<in> set t \<or> page_request w p q"
proof (cases "build_messages w user_prompt (Some []) (Some [p])")
  case (Inl e)
  with assms show ?thesis by (simp add: client_call_raises)
next
  case (Inr msgs)
  from build_page_messages [OF Inr] obtain bytes
    where bytes: "read_file w p = Inr bytes" and msgs: "msgs = page_messages bytes"
    by blast
  have "page_request w p (chat_request self msgs temp mt)"
    by (simp add: page_request_def bytes msgs chat_request_def)
  with assms Inr show ?thesis
    by (auto simp: LLMClient_completion_def Let_def split: sum.splits)
qed

lemma retry_loop_requests:
  assumes step: "\<And>t q. Create q \<in> set (snd (call t)) \<Longrightarrow> Create q \<in> set t \<or> P q"
  shows "Create q \<in> set (snd (retry_loop n call t)) \<Longrightarrow> Create q \<in> set t \<or> P q"
proof (induction n arbitrary: t)
  case 0
  then show ?case by simp
next
  case (Suc n)
  obtain res t' where call: "call t = (res, t')" by (cases "call t")
  show ?case
  proof (cases res)
    case (Inr r)
    with Suc.prems call step [of q t] show ?thesis by simp
  next
    case (Inl e)
    with Suc.prems call
    have "Create q \<in> set (snd (retry_loop n call (t' @ [llm_failure e, Sleep (1 / 2)])))"
      by simp
    from Suc.IH [OF this] have "Create q \<in> set t' \<or> P q" by auto
    with step [of q t] call show ?thesis by auto
  qed
qed

lemma convert_requests:
  assumes "Create q \<in> set (snd (convert_image_to_markdown w p t))"
  shows "Create q \<in> set t \<or> page_request w p q"
proof (cases "falsy (OPENAI_API_KEY (getenv w))")
  case True
  with assms show ?thesis by (simp add: convert_keyless)
next
  case False
  let ?call = "LLMClient_completion w (completion_client w []) user_prompt (Some [])
                 (Some [p]) (3 / 10) 8192"
  from assms have "Create q \<in> set (snd (retry_loop 3 ?call (t @ completion_prologue w)))"
    by (simp add: convert_image_to_markdown_def completion_eq [OF False])
  from retry_loop_requests [of ?call "page_request w p", OF client_call_page this]
  show ?thesis by (auto simp: completion_prologue_def)
qed

lemma page_loop_requests:
  "Create q \<in> set (snd (page_loop w paths markdown t)) \<Longrightarrow>
   Create q \<in> set t \<or> (\<exists>p \<in> set paths. page_request w (replace_backslash p) q)"
proof (induction paths arbitrary: markdown t)
  case Nil
  then show ?case by simp
next
  case (Cons p ps)
  let ?p = "replace_backslash p"
  let ?t1 = "t @ [announce ?p]"
  obtain res t2 where conv: "convert_image_to_markdown w ?p ?t1 = (res, t2)"
    by (cases "convert_image_to_markdown w ?p ?t1")
  have step: "Create q \<in> set t2 \<Longrightarrow> Create q \<in> set t \<or> page_request w ?p q"
    using convert_requests [of q w ?p ?t1] conv by (auto simp: announce_def)
  show ?case
  proof (cases res)
    case (Inl stop)
    with Cons.prems conv have "Create q \<in> set t2"
      by (simp add: page_loop_Cons del: page_loop.simps(2))
    with step show ?thesis by auto
  next
    case (Inr fragment)
    with Cons.prems conv
    have "Create q \<in> set (snd (page_loop w ps (markdown @ fragment @ [LF, LF]) t2))"
      by (simp add: page_loop_Cons del: page_loop.simps(2))
    from Cons.IH [OF this] step show ?thesis by auto
  qed
qed

lemma main_convert_requests:
  assumes "Create q \<in> set (snd (main_convert w output_dir output_path temp start_page
                                    end_page t))"
  shows "Create q \<in> set t \<or> (\<exists>p. page_request w p q)"
proof (cases "worker w temp start_page end_page")
  case (Inl e)
  with assms show ?thesis by (simp add: main_convert_rejected)
next
  case (Inr img_paths)
  let ?t1 = "t @ [Create_worker temp start_page end_page, Convert_to_images,
                  Log ''__main__'' INFO ''Image conversion completed'']"
  obtain res t2 where loop: "page_loop w (sort img_paths) [] ?t1 = (res, t2)"
    by (cases "page_loop w (sort img_paths) [] ?t1")
  from assms have "Create q \<in> set t2"
    unfolding main_convert_rendered [OF Inr] loop
    by (cases res; cases output_path) (auto split: abort.splits)
  with page_loop_requests [of q w "sort img_paths" "[]" ?t1] loop
  show ?thesis by auto
qed

lemma input_extension_events:
  "Create q \<in> set (snd (input_extension input_filename input_data t)) \<Longrightarrow> Create q \<in> set t"
  by (auto simp: input_extension_def Let_def split: if_splits)

lemma main_requests:
  assumes "Create q \<in> set (snd (main w inp output_path start_page end_page))"
  shows "\<exists>p. page_request w p q"
proof (cases "inp = Stdin []")
  case True
  with assms show ?thesis by (simp add: main_def)
next
  case False
  obtain res t where cls: "input_extension (input_filename_of inp) (input_data_of inp)
           [Makedirs (''output/'' @ now w)] = (res, t)"
    by (cases "input_extension (input_filename_of inp) (input_data_of inp)
           [Makedirs (''output/'' @ now w)]")
  from input_extension_events [of q "input_filename_of inp" "input_data_of inp"
      "[Makedirs (''output/'' @ now w)]"] cls
  have t: "Create q \<notin> set t" by auto
  show ?thesis
  proof (cases res)
    case (Inl stop)
    then obtain n where "res = Inl (SystemExit n)" by (cases stop) simp
    with cls main_unclassified [OF False] assms t show ?thesis by simp
  next
    case (Inr input_ext)
    with cls main_classified [OF False] assms
    have "Create q \<in> set (snd (main_convert w (''output/'' @ now w) output_path
             (''output/'' @ now w @ ''/input'' @ input_ext) start_page end_page
             (t @ [Write_bytes (''output/'' @ now w @ ''/input'' @ input_ext)
                     (input_data_of inp)])))"
      by simp
    from main_convert_requests [OF this] t show ?thesis by auto
  qed
qed

lemma sort_ordinal:
  fixes ordinal :: "string \<Rightarrow> nat"
  assumes "\<forall>a \<in> set img_paths. \<forall>b \<in> set img_paths. a \<le> b \<longrightarrow> ordinal a \<le> ordinal b"
  shows "sorted (map ordinal (sort img_paths))"
proof -
  have "sorted_wrt (\<lambda>a b. ordinal a \<le> ordinal b) (sort img_paths)"
  proof (rule sorted_wrt_mono_rel [of "sort img_paths" "(\<le>)"])
    show "sorted_wrt (\<le>) (sort img_paths)" by simp
    fix a b
    assume "a \<in> set (sort img_paths)" "b \<in> set (sort img_paths)" "a \<le> b"
    with assms show "ordinal a \<le> ordinal b" by simp
  qed
  then show ?thesis by (simp add: sorted_map)
qed

lemma build_page_messages_ok:
  "read_file w p = Inr bytes \<Longrightarrow>
   build_messages w user_prompt (Some []) (Some [p]) = Inr (page_messages bytes)"
  by (simp add: build_messages_def encode_image_def page_messages_def image_entry_def)

lemma convert_sends:
  assumes key: "\<not> falsy (OPENAI_API_KEY (getenv w))"
    and bytes: "read_file w p = Inr bytes"
  shows "\<exists>rest. snd (convert_image_to_markdown w p t)
               = t @ completion_prologue w
                   @ Create (chat_request (completion_client w []) (page_messages bytes)
                               (3 / 10) 8192) # rest"
proof -
  let ?call = "LLMClient_completion w (completion_client w []) user_prompt (Some [])
                 (Some [p]) (3 / 10) 8192"
  let ?q = "chat_request (completion_client w []) (page_messages bytes) (3 / 10) 8192"
  let ?t0 = "t @ completion_prologue w"
  note build = build_page_messages_ok [OF bytes]
  have trace: "snd (convert_image_to_markdown w p t) = snd (retry_loop 3 ?call ?t0)"
    by (simp add: convert_image_to_markdown_def completion_eq [OF key])
  show ?thesis
  proof (cases "create w (requests_sent ?t0) ?q")
    case (Inr r)
    have "?call ?t0 = (Inr r, ?t0 @ [Create ?q])"
      by (rule client_call_answers [OF build Inr])
    then have "retry_loop 3 ?call ?t0 = (r, ?t0 @ [Create ?q])"
      by (simp only: numeral_3_eq_3 retry_loop_answers [of ?call])
    with trace show ?thesis by simp
  next
    case (Inl e)
    let ?t1 = "(?t0 @ [Create ?q, api_failure e]) @ [llm_failure e, Sleep (1 / 2)]"
    have "?call ?t0 = (Inl e, ?t0 @ [Create ?q, api_failure e])"
      by (rule client_call_fails [OF build Inl])
    then have step: "retry_loop 3 ?call ?t0 = retry_loop 2 ?call ?t1"
      by (simp only: numeral_3_eq_3 numeral_2_eq_2 retry_loop_fails [of ?call])
    from retry_loop_chatter [of ?call 2 ?t1, OF client_call_chatter] obtain new
      where "snd (retry_loop 2 ?call ?t1) = ?t1 @ new"
      by blast
    with trace step show ?thesis by simp
  qed
qed

section \<open>Claims about the endpoint URL\<close>

text \<open>
  C3, as stated, fails: on \<open>https://host/models/x\<close> the URL has no trailing \<open>/models\<close>
  and does not end in \<open>/v1\<close>, so the stated rule appends \<open>/v1\<close> to all of it, while the
  client cuts the URL at \<open>/models\<close> first.
\<close>

theorem endpoint_counterexample:
  "LLMClient_base_url ''https://host/models/x'' = ''https://host/v1''
   \<and> spec_normalize ''https://host/models/x'' = ''https://host/models/x/v1''"
  by code_simp

text \<open>
  C3, amended: for a URL in which \<open>/models\<close> does not occur, and for a URL whose only
  occurrence of \<open>/models\<close> is its trailing suffix, the client's URL is the one the
  specification describes: the trailing \<open>/models\<close> is stripped, a URL ending in \<open>/v1\<close>
  is kept, and otherwise \<open>/v1\<close> is appended, with a slash only if none is there. The
  three examples of the specification hold.
\<close>

theorem endpoint_normalization:
  "(\<not> py_in ''/models'' u \<longrightarrow> LLMClient_base_url u = spec_normalize u)
   \<and> (\<not> py_in ''/models'' p \<longrightarrow>
        LLMClient_base_url (p @ ''/models'') = spec_normalize (p @ ''/models'')
        \<and> LLMClient_base_url (p @ ''/models'') = v1_rule p)
   \<and> LLMClient_base_url ''https://host/v1/models'' = ''https://host/v1''
   \<and> LLMClient_base_url ''https://host'' = ''https://host/v1''
   \<and> LLMClient_base_url ''https://host/'' = ''https://host/v1''"
proof (intro conjI impI)
  assume "\<not> py_in ''/models'' u"
  then have "\<not> endswith u ''/models''" using endswith_py_in by blast
  with \<open>\<not> py_in ''/models'' u\<close> show "LLMClient_base_url u = spec_normalize u"
    by (simp add: base_url_cases spec_normalize_cases)
next
  assume clean: "\<not> py_in ''/models'' p"
  have cut: "split_head ''/models'' (p @ ''/models'') = p"
    using split_head_models_at [OF clean, of "[]"] by simp
  then show code: "LLMClient_base_url (p @ ''/models'') = v1_rule p"
    by (simp add: base_url_split)
  have "endswith (p @ ''/models'') ''/models''"
    by (simp add: endswith_def suffix_def)
  then have "spec_normalize (p @ ''/models'') = v1_rule p"
    by (simp add: spec_normalize_cases)
  with code show "LLMClient_base_url (p @ ''/models'') = spec_normalize (p @ ''/models'')"
    by simp
next
  show "LLMClient_base_url ''https://host/v1/models'' = ''https://host/v1''"
    by code_simp
  show "LLMClient_base_url ''https://host'' = ''https://host/v1''"
    by code_simp
  show "LLMClient_base_url ''https://host/'' = ''https://host/v1''"
    by code_simp
qed

text \<open>An instance of C3 on \<open>http://localhost:8000/api\<close>, with and without the suffix.\<close>

theorem endpoint_normalization_witness:
  "\<not> py_in ''/models'' ''http://localhost:8000/api''
   \<and> LLMClient_base_url ''http://localhost:8000/api'' = ''http://localhost:8000/api/v1''
   \<and> spec_normalize ''http://localhost:8000/api'' = ''http://localhost:8000/api/v1''
   \<and> LLMClient_base_url ''http://localhost:8000/api/models'' = ''http://localhost:8000/api/v1''
   \<and> spec_normalize ''http://localhost:8000/api/models'' = ''http://localhost:8000/api/v1''"
proof -
  let ?u = "''http://localhost:8000/api''"
  have clean: "\<not> py_in ''/models'' ?u"
    by code_simp
  have v: "v1_rule ?u = ''http://localhost:8000/api/v1''"
    by code_simp
  have d: "LLMClient_base_url ?u = ''http://localhost:8000/api/v1''"
    by code_simp
  have app: "?u @ ''/models'' = ''http://localhost:8000/api/models''"
    by simp
  note inst = endpoint_normalization [of ?u ?u]
  have a: "LLMClient_base_url ?u = spec_normalize ?u"
    by (rule inst [THEN conjunct1, THEN mp, OF clean])
  note bc = inst [THEN conjunct2, THEN conjunct1, THEN mp, OF clean]
  have b: "LLMClient_base_url ''http://localhost:8000/api/models''
           = spec_normalize ''http://localhost:8000/api/models''"
    using bc [THEN conjunct1] by (simp only: app)
  have c: "LLMClient_base_url ''http://localhost:8000/api/models'' = v1_rule ?u"
    using bc [THEN conjunct2] by (simp only: app)
  from a d have a': "spec_normalize ?u = ''http://localhost:8000/api/v1''"
    by simp
  from c v have c': "LLMClient_base_url ''http://localhost:8000/api/models''
                     = ''http://localhost:8000/api/v1''"
    by (rule trans)
  from b c' have b': "spec_normalize ''http://localhost:8000/api/models''
                      = ''http://localhost:8000/api/v1''"
    by simp
  from clean d a' c' b' show ?thesis by (intro conjI)
qed

text \<open>
  C8: the endpoint normalisation is idempotent: normalising a normalised URL gives
  the same URL, for every base URL.
\<close>

theorem endpoint_idempotent:
  "LLMClient_base_url (LLMClient_base_url u) = LLMClient_base_url u"
proof -
  define b where "b = (if py_in ''/models'' u then split_head ''/models'' u else u)"
  have clean: "\<not> py_in ''/models'' b"
    by (simp add: b_def split_head_clean)
  have out: "LLMClient_base_url u = v1_rule b"
    by (simp add: base_url_cases b_def)
  have "LLMClient_base_url (v1_rule b) = v1_rule (v1_rule b)"
    using v1_rule_clean [OF clean] by (simp add: base_url_cases)
  also have "\<dots> = v1_rule b"
    by (rule v1_rule_fix) (rule v1_rule_ends)
  finally show ?thesis by (simp add: out)
qed

text \<open>An instance of C8: \<open>https://host/\<close> becomes \<open>https://host/v1\<close>, which stays.\<close>

theorem endpoint_idempotent_witness:
  "LLMClient_base_url ''https://host/'' = ''https://host/v1''
   \<and> LLMClient_base_url ''https://host/v1'' = ''https://host/v1''"
proof -
  have first: "LLMClient_base_url ''https://host/'' = ''https://host/v1''"
    by code_simp
  from endpoint_idempotent [of "''https://host/''"] first show ?thesis by simp
qed

text \<open>
  C9: a base URL of the form prefix, \<open>/models\<close>, anything is normalised as the prefix
  alone is. When \<open>/models\<close> occurs in a URL, the URL is cut where \<open>/models\<close> first
  starts (the separator follows the cut and starts nowhere before it), and the \<open>/v1\<close>
  rule is applied to what is left; \<open>completion\<close> in main.py makes the same cut before
  it hands the URL to the client, and puts the default URL in place of an empty rest.
\<close>

theorem models_cut:
  "LLMClient_base_url (p @ ''/models'' @ a) = LLMClient_base_url p
   \<and> (py_in ''/models'' u \<longrightarrow>
        (\<exists>rest. u = split_head ''/models'' u @ ''/models'' @ rest)
        \<and> (\<forall>i < length (split_head ''/models'' u). \<not> prefix ''/models'' (drop i u))
        \<and> LLMClient_base_url u = v1_rule (split_head ''/models'' u)
        \<and> configured_base_url (Some u) =
            (if split_head ''/models'' u = [] then ''https://api.openai.com''
             else split_head ''/models'' u))"
proof (intro conjI impI allI)
  show "LLMClient_base_url (p @ ''/models'' @ a) = LLMClient_base_url p"
    by (simp only: base_url_split split_head_models_any)
next
  assume "py_in ''/models'' u"
  then show "\<exists>rest. u = split_head ''/models'' u @ ''/models'' @ rest"
    by (rule split_head_found)
next
  fix i
  assume "i < length (split_head ''/models'' u)"
  then show "\<not> prefix ''/models'' (drop i u)"
    by (rule split_head_first)
next
  show "LLMClient_base_url u = v1_rule (split_head ''/models'' u)"
    by (rule base_url_split)
next
  assume found: "py_in ''/models'' u"
  then have "u \<noteq> []" by auto
  with found show "configured_base_url (Some u) =
      (if split_head ''/models'' u = [] then ''https://api.openai.com''
       else split_head ''/models'' u)"
    by (simp add: configured_base_url_def falsy_def)
qed

text \<open>An instance of C9 on a URL in which \<open>/models\<close> occurs twice.\<close>

theorem models_cut_witness:
  "py_in ''/models'' ''https://host/api/models/gpt-4o/models''
   \<and> split_head ''/models'' ''https://host/api/models/gpt-4o/models'' = ''https://host/api''
   \<and> LLMClient_base_url ''https://host/api/models/gpt-4o/models'' = ''https://host/api/v1''
   \<and> LLMClient_base_url ''https://host/api'' = ''https://host/api/v1''
   \<and> configured_base_url (Some ''https://host/api/models/gpt-4o/models'') = ''https://host/api''"
proof -
  let ?u = "''https://host/api/models/gpt-4o/models''"
  let ?p = "''https://host/api''"
  have found: "py_in ''/models'' ?u"
    by code_simp
  have cut: "split_head ''/models'' ?u = ?p"
    by code_simp
  have v: "v1_rule ?p = ''https://host/api/v1''"
    by code_simp
  have app: "?p @ ''/models'' @ ''/gpt-4o/models'' = ?u"
    by simp
  note inst = models_cut [of ?p "''/gpt-4o/models''" ?u]
  note rest = inst [THEN conjunct2, THEN mp, OF found]
  have b: "LLMClient_base_url ?u = ''https://host/api/v1''"
    using rest [THEN conjunct2, THEN conjunct2, THEN conjunct1] by (simp only: cut v)
  have a: "LLMClient_base_url ?p = ''https://host/api/v1''"
    using inst [THEN conjunct1] b by (simp only: app)
  have c: "configured_base_url (Some ?u) = ?p"
    using rest [THEN conjunct2, THEN conjunct2, THEN conjunct2] by (simp only: cut) simp
  from found cut b a c show ?thesis by (intro conjI)
qed

section \<open>Claims about the request\<close>

text \<open>
  C7, as stated, fails: the client builds one image entry per path it is given, so a
  call with two image paths gives a user message with two image entries, not zero or
  one.
\<close>

theorem request_counterexample:
  "build_messages demo_world ''Transcribe.'' None (Some [''page_1.png'', ''page_2.png'']) =
     Inr [\<lparr>role = ''system'', content = Plain []\<rparr>,
          \<lparr>role = ''user'',
           content = Parts [Text ''Transcribe.'',
                            Image_url ''data:image/jpeg;base64,iVBORw=='',
                            Image_url ''data:image/jpeg;base64,TWFu'']\<rparr>]"
  by code_simp

text \<open>
  C7, amended: whenever the client builds a message list, it holds exactly one system
  message, whose content is the instruction text (empty when none is given), followed
  by exactly one user message; the user content starts with the text instruction,
  followed by one image entry per image path given (none when the list is absent or
  empty), each the Base64 of the file's bytes wrapped as
  \<open>data:image/jpeg;base64,<payload>\<close> whatever the bytes are. That list is the
  \<open>messages\<close> of the request the client sends; when a file cannot be read the client
  raises and sends nothing. The requests of the page pipeline carry exactly one image:
  every request that \<open>convert_image_to_markdown\<close> sends for an image, and every request
  of a whole run of the script, holds the empty system message and the user message
  made of the instruction and the one entry of a page image; and with the API key set
  and the image readable, such a request is sent.
\<close>

theorem request_construction:
  "(build_messages w user_message system_prompt image_paths = Inr msgs \<longrightarrow>
      (\<exists>datas. map (read_file w) (paths_of image_paths) = map Inr datas
         \<and> msgs = [\<lparr>role = ''system'', content = Plain (system_text system_prompt)\<rparr>,
                    \<lparr>role = ''user'',
                     content = Parts (Text user_message # map image_entry datas)\<rparr>])
      \<and> (\<exists>rest. snd (LLMClient_completion w self user_message system_prompt image_paths
                         temperature max_tokens t)
                 = t @ Create (chat_request self msgs temperature max_tokens) # rest)
      \<and> req_messages (chat_request self msgs temperature max_tokens) = msgs)
   \<and> (build_messages w user_message system_prompt image_paths = Inl e \<longrightarrow>
        LLMClient_completion w self user_message system_prompt image_paths
          temperature max_tokens t = (Inl e, t))
   \<and> (build_messages w user_prompt (Some []) (Some [image_path]) = Inr page_msgs \<longrightarrow>
        (\<exists>bytes. read_file w image_path = Inr bytes
           \<and> page_msgs = [\<lparr>role = ''system'', content = Plain []\<rparr>,
                          \<lparr>role = ''user'',
                           content = Parts [Text user_prompt,
                             Image_url (''data:image/jpeg;base64,'' @ b64encode bytes)]\<rparr>]))
   \<and> (Create q \<in> set (snd (convert_image_to_markdown w image_path t))
        \<and> Create q \<notin> set t \<longrightarrow>
        (\<exists>bytes. read_file w image_path = Inr bytes
           \<and> req_messages q =
               [\<lparr>role = ''system'', content = Plain []\<rparr>,
                 \<lparr>role = ''user'',
                  content = Parts [Text user_prompt,
                    Image_url (''data:image/jpeg;base64,'' @ b64encode bytes)]\<rparr>]))
   \<and> (Create q \<in> set (snd (main w inp output_path start_page end_page)) \<longrightarrow>
        (\<exists>path bytes. read_file w path = Inr bytes
           \<and> req_messages q =
               [\<lparr>role = ''system'', content = Plain []\<rparr>,
                 \<lparr>role = ''user'',
                  content = Parts [Text user_prompt,
                    Image_url (''data:image/jpeg;base64,'' @ b64encode bytes)]\<rparr>]))
   \<and> (\<not> falsy (OPENAI_API_KEY (getenv w)) \<and> read_file w image_path = Inr bytes \<longrightarrow>
        (\<exists>sent rest. snd (convert_image_to_markdown w image_path t)
                        = t @ completion_prologue w @ Create sent # rest
           \<and> req_messages sent =
               [\<lparr>role = ''system'', content = Plain []\<rparr>,
                 \<lparr>role = ''user'',
                  content = Parts [Text user_prompt,
                    Image_url (''data:image/jpeg;base64,'' @ b64encode bytes)]\<rparr>]))"
proof (intro conjI impI; (elim conjE)?)
  assume "build_messages w user_message system_prompt image_paths = Inr msgs"
  then show "\<exists>datas. map (read_file w) (paths_of image_paths) = map Inr datas
         \<and> msgs = [\<lparr>role = ''system'', content = Plain (system_text system_prompt)\<rparr>,
                    \<lparr>role = ''user'',
                     content = Parts (Text user_message # map image_entry datas)\<rparr>]"
    by (rule build_messages_Inr)
next
  assume "build_messages w user_message system_prompt image_paths = Inr msgs"
  then show "\<exists>rest. snd (LLMClient_completion w self user_message system_prompt image_paths
                         temperature max_tokens t)
                 = t @ Create (chat_request self msgs temperature max_tokens) # rest"
    by (rule LLMClient_completion_request)
next
  show "req_messages (chat_request self msgs temperature max_tokens) = msgs"
    by (simp add: chat_request_def)
next
  assume "build_messages w user_message system_prompt image_paths = Inl e"
  then show "LLMClient_completion w self user_message system_prompt image_paths
          temperature max_tokens t = (Inl e, t)"
    by (simp add: LLMClient_completion_def)
next
  assume "build_messages w user_prompt (Some []) (Some [image_path]) = Inr page_msgs"
  from build_messages_Inr [OF this] obtain datas
    where reads0: "map (read_file w) (paths_of (Some [image_path])) = map Inr datas"
      and msgs0: "page_msgs =
                   [\<lparr>role = ''system'', content = Plain (system_text (Some []))\<rparr>,
                    \<lparr>role = ''user'', content = Parts (Text user_prompt # map image_entry datas)\<rparr>]"
    by blast
  from reads0 have reads: "map (read_file w) [image_path] = map Inr datas"
    by (simp add: paths_of_def)
  from msgs0 have msgs: "page_msgs = [\<lparr>role = ''system'', content = Plain []\<rparr>,
                   \<lparr>role = ''user'', content = Parts (Text user_prompt # map image_entry datas)\<rparr>]"
    by (simp add: system_text_def)
  from reads obtain bytes where "datas = [bytes]" and "read_file w image_path = Inr bytes"
    by (cases datas) auto
  with msgs show "\<exists>bytes. read_file w image_path = Inr bytes
           \<and> page_msgs = [\<lparr>role = ''system'', content = Plain []\<rparr>,
                          \<lparr>role = ''user'',
                           content = Parts [Text user_prompt,
                             Image_url (''data:image/jpeg;base64,'' @ b64encode bytes)]\<rparr>]"
    by (simp add: image_entry_def)
next
  assume "Create q \<in> set (snd (convert_image_to_markdown w image_path t))"
    and "Create q \<notin> set t"
  with convert_requests [of q w image_path t] have "page_request w image_path q"
    by blast
  then show "\<exists>bytes. read_file w image_path = Inr bytes
           \<and> req_messages q =
               [\<lparr>role = ''system'', content = Plain []\<rparr>,
                 \<lparr>role = ''user'',
                  content = Parts [Text user_prompt,
                    Image_url (''data:image/jpeg;base64,'' @ b64encode bytes)]\<rparr>]"
    by (cases "read_file w image_path")
       (simp_all add: page_request_def page_messages_def image_entry_def)
next
  assume "Create q \<in> set (snd (main w inp output_path start_page end_page))"
  from main_requests [OF this] obtain path where "page_request w path q"
    by blast
  then have "\<exists>bytes. read_file w path = Inr bytes
           \<and> req_messages q =
               [\<lparr>role = ''system'', content = Plain []\<rparr>,
                 \<lparr>role = ''user'',
                  content = Parts [Text user_prompt,
                    Image_url (''data:image/jpeg;base64,'' @ b64encode bytes)]\<rparr>]"
    by (cases "read_file w path")
       (simp_all add: page_request_def page_messages_def image_entry_def)
  then show "\<exists>path bytes. read_file w path = Inr bytes
           \<and> req_messages q =
               [\<lparr>role = ''system'', content = Plain []\<rparr>,
                 \<lparr>role = ''user'',
                  content = Parts [Text user_prompt,
                    Image_url (''data:image/jpeg;base64,'' @ b64encode bytes)]\<rparr>]"
    by blast
next
  assume "\<not> falsy (OPENAI_API_KEY (getenv w))" and "read_file w image_path = Inr bytes"
  from convert_sends [OF this, of t] obtain rest
    where "snd (convert_image_to_markdown w image_path t)
           = t @ completion_prologue w
               @ Create (chat_request (completion_client w []) (page_messages bytes)
                           (3 / 10) 8192) # rest"
    by blast
  moreover have "req_messages (chat_request (completion_client w []) (page_messages bytes)
                                 (3 / 10) 8192) =
               [\<lparr>role = ''system'', content = Plain []\<rparr>,
                 \<lparr>role = ''user'',
                  content = Parts [Text user_prompt,
                    Image_url (''data:image/jpeg;base64,'' @ b64encode bytes)]\<rparr>]"
    by (simp add: chat_request_def page_messages_def image_entry_def)
  ultimately show "\<exists>sent rest. snd (convert_image_to_markdown w image_path t)
                        = t @ completion_prologue w @ Create sent # rest
           \<and> req_messages sent =
               [\<lparr>role = ''system'', content = Plain []\<rparr>,
                 \<lparr>role = ''user'',
                  content = Parts [Text user_prompt,
                    Image_url (''data:image/jpeg;base64,'' @ b64encode bytes)]\<rparr>]"
    by blast
qed

text \<open>
  An instance of C7 in the example world: a readable image, an unreadable one, a page
  of the pipeline, and the request for page_1.png in a page conversion and in a whole
  run.
\<close>

theorem request_construction_witness:
  "build_messages demo_world ''Transcribe.'' (Some []) (Some [''page_1.png'']) = Inr demo_messages
   \<and> snd (LLMClient_completion demo_world (completion_client demo_world []) ''Transcribe.''
            (Some []) (Some [''page_1.png'']) (3 / 10) 8192 []) = [Create demo_request]
   \<and> req_messages demo_request = demo_messages
   \<and> build_messages demo_world ''Transcribe.'' (Some []) (Some [''missing.png''])
       = Inl ''No such file or directory''
   \<and> LLMClient_completion demo_world (completion_client demo_world []) ''Transcribe.''
         (Some []) (Some [''missing.png'']) (3 / 10) 8192 []
       = (Inl ''No such file or directory'', [])
   \<and> build_messages demo_world user_prompt (Some []) (Some [''page_2.png''])
       = Inr [\<lparr>role = ''system'', content = Plain []\<rparr>,
              \<lparr>role = ''user'',
               content = Parts [Text user_prompt, Image_url ''data:image/jpeg;base64,TWFu'']\<rparr>]
   \<and> (\<exists>bytes. read_file demo_world ''page_2.png'' = Inr bytes
          \<and> [\<lparr>role = ''system'', content = Plain []\<rparr>,
               \<lparr>role = ''user'',
                content = Parts [Text user_prompt, Image_url ''data:image/jpeg;base64,TWFu'']\<rparr>]
              = [\<lparr>role = ''system'', content = Plain []\<rparr>,
                 \<lparr>role = ''user'',
                  content = Parts [Text user_prompt,
                    Image_url (''data:image/jpeg;base64,'' @ b64encode bytes)]\<rparr>])
   \<and> Create demo_page_request \<in> set (snd (convert_image_to_markdown demo_world ''page_1.png'' []))
   \<and> Create demo_page_request \<in> set (snd (main demo_world (Stdin demo_pdf) None 1 0))
   \<and> req_messages demo_page_request =
       [\<lparr>role = ''system'', content = Plain []\<rparr>,
        \<lparr>role = ''user'',
         content = Parts [Text user_prompt, Image_url ''data:image/jpeg;base64,iVBORw=='']\<rparr>]
   \<and> (\<exists>bytes. read_file demo_world ''page_1.png'' = Inr bytes
          \<and> req_messages demo_page_request =
              [\<lparr>role = ''system'', content = Plain []\<rparr>,
                 \<lparr>role = ''user'',
                  content = Parts [Text user_prompt,
                    Image_url (''data:image/jpeg;base64,'' @ b64encode bytes)]\<rparr>])
   \<and> (\<exists>path bytes. read_file demo_world path = Inr bytes
          \<and> req_messages demo_page_request =
              [\<lparr>role = ''system'', content = Plain []\<rparr>,
                 \<lparr>role = ''user'',
                  content = Parts [Text user_prompt,
                    Image_url (''data:image/jpeg;base64,'' @ b64encode bytes)]\<rparr>])
   \<and> \<not> falsy (OPENAI_API_KEY (getenv demo_world))
   \<and> read_file demo_world ''page_2.png'' = Inr [0x4D, 0x61, 0x6E]
   \<and> (\<exists>sent rest. snd (convert_image_to_markdown demo_world ''page_2.png'' [])
                      = [] @ completion_prologue demo_world @ Create sent # rest
          \<and> req_messages sent =
              [\<lparr>role = ''system'', content = Plain []\<rparr>,
                 \<lparr>role = ''user'',
                  content = Parts [Text user_prompt,
                    Image_url (''data:image/jpeg;base64,'' @ b64encode [0x4D, 0x61, 0x6E])]\<rparr>])"
proof -
  let ?cl = "completion_client demo_world []"
  have ok: "build_messages demo_world ''Transcribe.'' (Some []) (Some [''page_1.png''])
            = Inr demo_messages"
    by code_simp
  have bad: "build_messages demo_world ''Transcribe.'' (Some []) (Some [''missing.png''])
             = Inl ''No such file or directory''"
    by code_simp
  have page: "build_messages demo_world user_prompt (Some []) (Some [''page_2.png''])
       = Inr [\<lparr>role = ''system'', content = Plain []\<rparr>,
              \<lparr>role = ''user'',
               content = Parts [Text user_prompt, Image_url ''data:image/jpeg;base64,TWFu'']\<rparr>]"
    by code_simp
  have q: "chat_request ?cl demo_messages (3 / 10) 8192 = demo_request"
    by code_simp
  have run: "snd (LLMClient_completion demo_world ?cl ''Transcribe.''
            (Some []) (Some [''page_1.png'']) (3 / 10) 8192 []) = [Create demo_request]"
    by code_simp
  note inst = request_construction [where w = demo_world and self = ?cl and t = "[]"
      and temperature = "3 / 10" and max_tokens = 8192]
  note first = inst [THEN conjunct1, THEN mp, OF ok]
  have msgs: "req_messages demo_request = demo_messages"
    using first [THEN conjunct2, THEN conjunct2] by (simp only: q)
  note raised = inst [THEN conjunct2, THEN conjunct1, THEN mp, OF bad]
  note one = inst [THEN conjunct2, THEN conjunct2, THEN conjunct1, THEN mp, OF page]
  have in_page: "Create demo_page_request
                 \<in> set (snd (convert_image_to_markdown demo_world ''page_1.png'' []))"
    by code_simp
  have fresh: "Create demo_page_request \<notin> set []"
    by simp
  have in_run: "Create demo_page_request
                \<in> set (snd (main demo_world (Stdin demo_pdf) None 1 0))"
    by code_simp
  have shape: "req_messages demo_page_request =
       [\<lparr>role = ''system'', content = Plain []\<rparr>,
        \<lparr>role = ''user'',
         content = Parts [Text user_prompt, Image_url ''data:image/jpeg;base64,iVBORw=='']\<rparr>]"
    by code_simp
  have key: "\<not> falsy (OPENAI_API_KEY (getenv demo_world))"
    by code_simp
  have bytes: "read_file demo_world ''page_2.png'' = Inr [0x4D, 0x61, 0x6E]"
    by code_simp
  note of_page = request_construction [where w = demo_world and q = demo_page_request
      and t = "[]" and image_path = "''page_1.png''",
      THEN conjunct2, THEN conjunct2, THEN conjunct2, THEN conjunct1, THEN mp,
      OF conjI [OF in_page fresh]]
  note of_run = request_construction [where w = demo_world and q = demo_page_request
      and inp = "Stdin demo_pdf" and output_path = None and start_page = 1 and end_page = 0,
      THEN conjunct2, THEN conjunct2, THEN conjunct2, THEN conjunct2, THEN conjunct1,
      THEN mp, OF in_run]
  note sends = request_construction [where w = demo_world and t = "[]"
      and image_path = "''page_2.png''",
      THEN conjunct2, THEN conjunct2, THEN conjunct2, THEN conjunct2, THEN conjunct2,
      THEN mp, OF conjI [OF key bytes]]
  from ok run msgs bad raised page one in_page in_run shape of_page of_run key bytes sends
  show ?thesis
    by (intro conjI)
qed

text \<open>
  C10: the client accepts any number of image paths: for \<open>n\<close> readable paths the user
  content has \<open>n + 1\<close> entries, the text instruction first, then one image entry per
  path, in the order of the list.
\<close>

theorem image_list:
  "map (read_file w) paths = map Inr datas \<longrightarrow>
     build_messages w user_message system_prompt (Some paths) =
       Inr [\<lparr>role = ''system'', content = Plain (system_text system_prompt)\<rparr>,
            \<lparr>role = ''user'',
             content = Parts (Text user_message # map image_entry datas)\<rparr>]
     \<and> length (Text user_message # map image_entry datas) = length paths + 1
     \<and> (\<forall>i < length paths.
          read_file w (paths ! i) = Inr (datas ! i)
          \<and> (Text user_message # map image_entry datas) ! (i + 1) =
              Image_url (''data:image/jpeg;base64,'' @ b64encode (datas ! i)))"
proof (intro impI conjI allI)
  assume reads: "map (read_file w) paths = map Inr datas"
  then have len: "length datas = length paths"
    by (metis length_map)
  from reads have "map (read_file w) (paths_of (Some paths)) = map Inr datas"
    by (simp add: paths_of_def)
  then show "build_messages w user_message system_prompt (Some paths) =
       Inr [\<lparr>role = ''system'', content = Plain (system_text system_prompt)\<rparr>,
            \<lparr>role = ''user'',
             content = Parts (Text user_message # map image_entry datas)\<rparr>]"
    by (rule build_messages_ok)
  show "length (Text user_message # map image_entry datas) = length paths + 1"
    by (simp add: len)
  fix i
  assume i: "i < length paths"
  have "map (read_file w) paths ! i = map Inr datas ! i"
    by (simp only: reads)
  with i len show "read_file w (paths ! i) = Inr (datas ! i)"
    by simp
  from i len show "(Text user_message # map image_entry datas) ! (i + 1) =
              Image_url (''data:image/jpeg;base64,'' @ b64encode (datas ! i))"
    by (simp add: image_entry_def)
qed

text \<open>An instance of C10 with two images.\<close>

theorem image_list_witness:
  "map (read_file demo_world) [''page_1.png'', ''page_2.png'']
     = map Inr [[0x89, 0x50, 0x4E, 0x47], [0x4D, 0x61, 0x6E]]
   \<and> build_messages demo_world ''Transcribe.'' (Some ''Be exact.'')
         (Some [''page_1.png'', ''page_2.png'']) =
       Inr [\<lparr>role = ''system'', content = Plain ''Be exact.''\<rparr>,
            \<lparr>role = ''user'',
             content = Parts [Text ''Transcribe.'',
                              Image_url ''data:image/jpeg;base64,iVBORw=='',
                              Image_url ''data:image/jpeg;base64,TWFu'']\<rparr>]"
proof -
  have reads: "map (read_file demo_world) [''page_1.png'', ''page_2.png'']
     = map Inr [[0x89, 0x50, 0x4E, 0x47], [0x4D, 0x61, 0x6E]]"
    by code_simp
  have entries: "map image_entry [[0x89, 0x50, 0x4E, 0x47], [0x4D, 0x61, 0x6E]]
     = [Image_url ''data:image/jpeg;base64,iVBORw=='', Image_url ''data:image/jpeg;base64,TWFu'']"
    by code_simp
  have sys: "system_text (Some ''Be exact.'') = ''Be exact.''"
    by (simp add: system_text_def)
  have "build_messages demo_world ''Transcribe.'' (Some ''Be exact.'')
         (Some [''page_1.png'', ''page_2.png'']) =
       Inr [\<lparr>role = ''system'', content = Plain ''Be exact.''\<rparr>,
            \<lparr>role = ''user'',
             content = Parts [Text ''Transcribe.'',
                              Image_url ''data:image/jpeg;base64,iVBORw=='',
                              Image_url ''data:image/jpeg;base64,TWFu'']\<rparr>]"
    using image_list [where w = demo_world and user_message = "''Transcribe.''"
        and system_prompt = "Some ''Be exact.''", THEN mp, OF reads, THEN conjunct1]
    by (simp only: entries sys)
  with reads show ?thesis by (intro conjI)
qed

section \<open>Claims about the retry loop\<close>

text \<open>
  C1: with the API key set, \<open>completion\<close> calls the client at most three times for a
  page. If the first two requests fail and the third is answered, it returns that
  answer, and exactly two waits of half a time unit have occurred, one after each
  failure. If all three requests fail, or the page image cannot be read (then every
  attempt fails before a request is sent), it returns the empty string as a normal
  result, with no exit, and the retry loop has logged exactly three failures. The
  client logs a line of its own for every failed request.
\<close>

theorem retry_policy:
  "\<not> falsy (OPENAI_API_KEY (getenv w)) \<longrightarrow>
     (build_messages w message (Some system_prompt) image_paths = Inr msgs
        \<and> q = chat_request (completion_client w model) msgs temperature max_tokens
        \<and> n = requests_sent t \<longrightarrow>
        (create w n q = Inl e1 \<and> create w (n + 1) q = Inl e2
           \<and> create w (n + 2) q = Inr response \<longrightarrow>
           completion w message model system_prompt image_paths temperature max_tokens 3 t =
             (Inr response,
              t @ completion_prologue w
                @ [Create q, api_failure e1, llm_failure e1, Sleep (1 / 2),
                   Create q, api_failure e2, llm_failure e2, Sleep (1 / 2),
                   Create q]))
        \<and> (create w n q = Inl e1 \<and> create w (n + 1) q = Inl e2
             \<and> create w (n + 2) q = Inl e3 \<longrightarrow>
             completion w message model system_prompt image_paths temperature max_tokens 3 t =
               (Inr [],
                t @ completion_prologue w
                  @ [Create q, api_failure e1, llm_failure e1, Sleep (1 / 2),
                     Create q, api_failure e2, llm_failure e2, Sleep (1 / 2),
                     Create q, api_failure e3, llm_failure e3, Sleep (1 / 2)])))
     \<and> (build_messages w message (Some system_prompt) image_paths = Inl e \<longrightarrow>
          completion w message model system_prompt image_paths temperature max_tokens 3 t =
            (Inr [],
             t @ completion_prologue w
               @ [llm_failure e, Sleep (1 / 2), llm_failure e, Sleep (1 / 2),
                  llm_failure e, Sleep (1 / 2)]))"
proof (intro impI conjI; (elim conjE)?)
  let ?call = "LLMClient_completion w (completion_client w model) message (Some system_prompt)
                 image_paths temperature max_tokens"
  let ?t0 = "t @ completion_prologue w"
  assume key: "\<not> falsy (OPENAI_API_KEY (getenv w))"
  {
    assume build: "build_messages w message (Some system_prompt) image_paths = Inr msgs"
      and q: "q = chat_request (completion_client w model) msgs temperature max_tokens"
      and n: "n = requests_sent t"
      and c1: "create w n q = Inl e1" and c2: "create w (n + 1) q = Inl e2"
    let ?t1 = "?t0 @ [Create q, api_failure e1]"
    let ?t1' = "?t1 @ [llm_failure e1, Sleep (1 / 2)]"
    let ?t2 = "?t1' @ [Create q, api_failure e2]"
    let ?t2' = "?t2 @ [llm_failure e2, Sleep (1 / 2)]"
    have a1: "?call ?t0 = (Inl e1, ?t1)"
      unfolding q by (rule client_call_fails [OF build]) (use c1 q n in simp)
    have a2: "?call ?t1' = (Inl e2, ?t2)"
      unfolding q by (rule client_call_fails [OF build]) (use c2 q n in simp)
    have two: "retry_loop 3 ?call ?t0 = retry_loop 1 ?call ?t2'"
      by (simp only: numeral_3_eq_3 One_nat_def retry_loop_fails [of ?call, OF a1]
            retry_loop_fails [of ?call, OF a2])
    {
      assume c3: "create w (n + 2) q = Inr response"
      have a3: "?call ?t2' = (Inr response, ?t2' @ [Create q])"
        unfolding q by (rule client_call_answers [OF build]) (use c3 q n in simp)
      have "retry_loop 3 ?call ?t0 = (response, ?t2' @ [Create q])"
        by (simp only: two One_nat_def retry_loop_answers [of ?call, OF a3])
      then show "completion w message model system_prompt image_paths temperature
                   max_tokens 3 t =
             (Inr response,
              t @ completion_prologue w
                @ [Create q, api_failure e1, llm_failure e1, Sleep (1 / 2),
                   Create q, api_failure e2, llm_failure e2, Sleep (1 / 2),
                   Create q])"
        by (simp add: completion_eq [OF key])
    }
    {
      assume c3: "create w (n + 2) q = Inl e3"
      have a3: "?call ?t2' = (Inl e3, ?t2' @ [Create q, api_failure e3])"
        unfolding q by (rule client_call_fails [OF build]) (use c3 q n in simp)
      have "retry_loop 3 ?call ?t0
            = ([], (?t2' @ [Create q, api_failure e3]) @ [llm_failure e3, Sleep (1 / 2)])"
        by (simp only: two One_nat_def retry_loop_fails [of ?call, OF a3] retry_loop.simps(1))
      then show "completion w message model system_prompt image_paths temperature
                   max_tokens 3 t =
               (Inr [],
                t @ completion_prologue w
                  @ [Create q, api_failure e1, llm_failure e1, Sleep (1 / 2),
                     Create q, api_failure e2, llm_failure e2, Sleep (1 / 2),
                     Create q, api_failure e3, llm_failure e3, Sleep (1 / 2)])"
        by (simp add: completion_eq [OF key])
    }
  }
  {
    assume build: "build_messages w message (Some system_prompt) image_paths = Inl e"
    have a: "?call u = (Inl e, u)" for u
      by (rule client_call_raises [OF build])
    have "retry_loop 3 ?call ?t0
          = ([], ((?t0 @ [llm_failure e, Sleep (1 / 2)]) @ [llm_failure e, Sleep (1 / 2)])
                   @ [llm_failure e, Sleep (1 / 2)])"
      by (simp only: numeral_3_eq_3 retry_loop_fails [of ?call, OF a] retry_loop.simps(1))
    then show "completion w message model system_prompt image_paths temperature
                 max_tokens 3 t =
            (Inr [],
             t @ completion_prologue w
               @ [llm_failure e, Sleep (1 / 2), llm_failure e, Sleep (1 / 2),
                  llm_failure e, Sleep (1 / 2)])"
      by (simp add: completion_eq [OF key])
  }
qed

text \<open>
  Instances of C1: a provider that answers the third request, one that never answers,
  and an image that cannot be read.
\<close>

theorem retry_policy_witness:
  "\<not> falsy (OPENAI_API_KEY (getenv flaky_world))
   \<and> create flaky_world 0 demo_request = Inl ''Connection error.''
   \<and> create flaky_world 1 demo_request = Inl ''Connection error.''
   \<and> create flaky_world 2 demo_request = Inr ''# B''
   \<and> completion flaky_world ''Transcribe.'' [] [] (Some [''page_1.png'']) (3 / 10) 8192 3 [] =
       (Inr ''# B'',
        completion_prologue flaky_world
          @ [Create demo_request, api_failure ''Connection error.'',
             llm_failure ''Connection error.'', Sleep (1 / 2),
             Create demo_request, api_failure ''Connection error.'',
             llm_failure ''Connection error.'', Sleep (1 / 2),
             Create demo_request])
   \<and> create down_world 2 demo_request = Inl ''Connection error.''
   \<and> completion down_world ''Transcribe.'' [] [] (Some [''page_1.png'']) (3 / 10) 8192 3 [] =
       (Inr [],
        completion_prologue down_world
          @ [Create demo_request, api_failure ''Connection error.'',
             llm_failure ''Connection error.'', Sleep (1 / 2),
             Create demo_request, api_failure ''Connection error.'',
             llm_failure ''Connection error.'', Sleep (1 / 2),
             Create demo_request, api_failure ''Connection error.'',
             llm_failure ''Connection error.'', Sleep (1 / 2)])
   \<and> build_messages demo_world ''Transcribe.'' (Some []) (Some [''missing.png''])
       = Inl ''No such file or directory''
   \<and> completion demo_world ''Transcribe.'' [] [] (Some [''missing.png'']) (3 / 10) 8192 3 [] =
       (Inr [],
        completion_prologue demo_world
          @ [llm_failure ''No such file or directory'', Sleep (1 / 2),
             llm_failure ''No such file or directory'', Sleep (1 / 2),
             llm_failure ''No such file or directory'', Sleep (1 / 2)])"
proof -
  have key_f: "\<not> falsy (OPENAI_API_KEY (getenv flaky_world))" by code_simp
  have key_d: "\<not> falsy (OPENAI_API_KEY (getenv down_world))" by code_simp
  have key_m: "\<not> falsy (OPENAI_API_KEY (getenv demo_world))" by code_simp
  have build_f: "build_messages flaky_world ''Transcribe.'' (Some []) (Some [''page_1.png''])
                 = Inr demo_messages"
    by code_simp
  have build_d: "build_messages down_world ''Transcribe.'' (Some []) (Some [''page_1.png''])
                 = Inr demo_messages"
    by code_simp
  have build_m: "build_messages demo_world ''Transcribe.'' (Some []) (Some [''missing.png''])
                 = Inl ''No such file or directory''"
    by code_simp
  have q_f: "demo_request = chat_request (completion_client flaky_world []) demo_messages
               (3 / 10) 8192"
    by code_simp
  have q_d: "demo_request = chat_request (completion_client down_world []) demo_messages
               (3 / 10) 8192"
    by code_simp
  have n: "(0::nat) = requests_sent []" by simp
  have f0: "create flaky_world 0 demo_request = Inl ''Connection error.''" by code_simp
  have f1: "create flaky_world (0 + 1) demo_request = Inl ''Connection error.''" by code_simp
  have f2: "create flaky_world (0 + 2) demo_request = Inr ''# B''" by code_simp
  have d0: "create down_world 0 demo_request = Inl ''Connection error.''" by code_simp
  have d1: "create down_world (0 + 1) demo_request = Inl ''Connection error.''" by code_simp
  have d2: "create down_world (0 + 2) demo_request = Inl ''Connection error.''" by code_simp
  note flaky = retry_policy [where w = flaky_world and t = "[]" and n = 0 and q = demo_request
      and msgs = demo_messages and model = "[]", THEN mp, OF key_f, THEN conjunct1, THEN mp,
      OF conjI [OF build_f conjI [OF q_f n]], THEN conjunct1, THEN mp,
      OF conjI [OF f0 conjI [OF f1 f2]]]
  note down = retry_policy [where w = down_world and t = "[]" and n = 0 and q = demo_request
      and msgs = demo_messages and model = "[]", THEN mp, OF key_d, THEN conjunct1, THEN mp,
      OF conjI [OF build_d conjI [OF q_d n]], THEN conjunct2, THEN mp,
      OF conjI [OF d0 conjI [OF d1 d2]]]
  note missing = retry_policy [where w = demo_world and t = "[]" and model = "[]",
      THEN mp, OF key_m, THEN conjunct2, THEN mp, OF build_m]
  have f1': "create flaky_world 1 demo_request = Inl ''Connection error.''" by code_simp
  have f2': "create flaky_world 2 demo_request = Inr ''# B''" by code_simp
  have d2': "create down_world 2 demo_request = Inl ''Connection error.''" by code_simp
  from flaky have flaky': "completion flaky_world ''Transcribe.'' [] [] (Some [''page_1.png''])
       (3 / 10) 8192 3 [] =
       (Inr ''# B'',
        completion_prologue flaky_world
          @ [Create demo_request, api_failure ''Connection error.'',
             llm_failure ''Connection error.'', Sleep (1 / 2),
             Create demo_request, api_failure ''Connection error.'',
             llm_failure ''Connection error.'', Sleep (1 / 2),
             Create demo_request])"
    by simp
  from down have down': "completion down_world ''Transcribe.'' [] [] (Some [''page_1.png''])
       (3 / 10) 8192 3 [] =
       (Inr [],
        completion_prologue down_world
          @ [Create demo_request, api_failure ''Connection error.'',
             llm_failure ''Connection error.'', Sleep (1 / 2),
             Create demo_request, api_failure ''Connection error.'',
             llm_failure ''Connection error.'', Sleep (1 / 2),
             Create demo_request, api_failure ''Connection error.'',
             llm_failure ''Connection error.'', Sleep (1 / 2)])"
    by simp
  from missing have missing': "completion demo_world ''Transcribe.'' [] []
       (Some [''missing.png'']) (3 / 10) 8192 3 [] =
       (Inr [],
        completion_prologue demo_world
          @ [llm_failure ''No such file or directory'', Sleep (1 / 2),
             llm_failure ''No such file or directory'', Sleep (1 / 2),
             llm_failure ''No such file or directory'', Sleep (1 / 2)])"
    by simp
  from key_f f0 f1' f2' flaky' d2' down' build_m missing' show ?thesis
    by (intro conjI)
qed

section \<open>Claims about the pages\<close>

text \<open>
  C2, as stated, fails: the pages are put together in the lexicographic order of the
  image paths, not in ascending page order. When pages 1, 2 and 10 are rendered to
  page_1.png, page_2.png and page_10.png and the provider answers \<open>PAGE n\<close> for page
  \<open>n\<close>, the document holds \<open>PAGE 1\<close>, \<open>PAGE 10\<close>, \<open>PAGE 2\<close>, in this order.
\<close>

theorem assembly_counterexample:
  "worker echo_world ''output/20240101120000/input.pdf'' 1 0
     = Inr [''page_2.png'', ''page_10.png'', ''page_1.png'']
   \<and> fst (convert_image_to_markdown echo_world ''page_1.png'' []) = Inr ''PAGE 1''
   \<and> fst (convert_image_to_markdown echo_world ''page_2.png'' []) = Inr ''PAGE 2''
   \<and> fst (convert_image_to_markdown echo_world ''page_10.png'' []) = Inr ''PAGE 10''
   \<and> main echo_world (Stdin demo_pdf) (Some ''doc.md'') 1 0 =
       (0, snd (main echo_world (Stdin demo_pdf) (Some ''doc.md'') 1 0))
   \<and> outputs (snd (main echo_world (Stdin demo_pdf) (Some ''doc.md'') 1 0)) =
       [''PAGE 1'' @ [LF, LF] @ ''PAGE 10'' @ [LF, LF] @ ''PAGE 2'' @ [LF, LF]]"
  by code_simp

text \<open>
  C2, amended: the final Markdown document is the concatenation of the fragments of
  the pages, each followed by exactly two line feeds, in the lexicographic order of
  the image paths (C6); that is ascending page order whenever the names of the images
  sort as the page ordinals do. The page loop returns that document, and the script
  delivers exactly it: as it is to the output file, and with the one line feed that
  \<open>print\<close> adds to standard output. A fragment is what \<open>remove_markdown_warp\<close> leaves of
  the answer for the page. In the example world, a two-page document whose first page
  is answered with \<open># A\<close> and whose second page uses up its three attempts, the
  document is \<open># A\<close> followed by four line feeds.
\<close>

theorem markdown_assembly:
  "(\<not> falsy (OPENAI_API_KEY (getenv w)) \<longrightarrow>
      fst (page_loop w paths markdown t) =
        Inr (markdown @ concat (map (\<lambda>fragment. fragment @ [LF, LF]) (fragments w paths t)))
      \<and> length (fragments w paths t) = length paths
      \<and> (worker w temp start_page end_page = Inr img_paths \<longrightarrow>
           fst (main_convert w output_dir output_path temp start_page end_page t) = 0
           \<and> outputs (snd (main_convert w output_dir output_path temp start_page end_page t)) =
               outputs t @ [delivered output_path
                 (concat (map (\<lambda>fragment. fragment @ [LF, LF])
                    (fragments w (sort img_paths)
                       (t @ [Create_worker temp start_page end_page, Convert_to_images,
                             Log ''__main__'' INFO ''Image conversion completed'']))))]))
   \<and> ((\<forall>a \<in> set img_paths. \<forall>b \<in> set img_paths. a \<le> b \<longrightarrow> ordinal a \<le> ordinal b) \<longrightarrow>
        sorted (map ordinal (sort img_paths) :: nat list))
   \<and> delivered (Some path) markdown = markdown
   \<and> delivered None markdown = markdown @ [LF]
   \<and> fragments demo_world [''page_1.png'', ''page_2.png''] [] = [''# A'', []]
   \<and> length (filter (\<lambda>e. e = llm_failure ''Connection error.'')
         (snd (main demo_world (File ''docs/doc.pdf'' demo_pdf) (Some ''doc.md'') 1 0))) = 3
   \<and> fst (main demo_world (File ''docs/doc.pdf'' demo_pdf) (Some ''doc.md'') 1 0) = 0
   \<and> outputs (snd (main demo_world (File ''docs/doc.pdf'' demo_pdf) (Some ''doc.md'') 1 0))
       = [''# A'' @ [LF, LF, LF, LF]]
   \<and> outputs (snd (main demo_world (File ''docs/doc.pdf'' demo_pdf) None 1 0))
       = [''# A'' @ [LF, LF, LF, LF] @ [LF]]"
proof (intro conjI impI)
  assume key: "\<not> falsy (OPENAI_API_KEY (getenv w))"
  note loop = page_loop_fragments [OF key, of paths markdown t]
  from loop show "fst (page_loop w paths markdown t) =
        Inr (markdown @ concat (map (\<lambda>fragment. fragment @ [LF, LF]) (fragments w paths t)))"
    by (rule conjunct1)
  from loop show "length (fragments w paths t) = length paths"
    by (rule conjunct2)
  assume rendered: "worker w temp start_page end_page = Inr img_paths"
  note run = main_convert_key [OF key rendered, of output_dir output_path t]
  from run show "fst (main_convert w output_dir output_path temp start_page end_page t) = 0"
    by (rule conjunct1)
  from run show "outputs (snd (main_convert w output_dir output_path temp start_page end_page t)) =
               outputs t @ [delivered output_path
                 (concat (map (\<lambda>fragment. fragment @ [LF, LF])
                    (fragments w (sort img_paths)
                       (t @ [Create_worker temp start_page end_page, Convert_to_images,
                             Log ''__main__'' INFO ''Image conversion completed'']))))]"
    by blast
next
  assume "\<forall>a \<in> set img_paths. \<forall>b \<in> set img_paths. a \<le> b \<longrightarrow> ordinal a \<le> ordinal b"
  then show "sorted (map ordinal (sort img_paths))"
    by (rule sort_ordinal)
next
  show "delivered (Some path) markdown = markdown"
    by (simp add: delivered_def)
  show "delivered None markdown = markdown @ [LF]"
    by (simp add: delivered_def)
  show "fragments demo_world [''page_1.png'', ''page_2.png''] [] = [''# A'', []]"
    by code_simp
  show "length (filter (\<lambda>e. e = llm_failure ''Connection error.'')
         (snd (main demo_world (File ''docs/doc.pdf'' demo_pdf) (Some ''doc.md'') 1 0))) = 3"
    by code_simp
  show "fst (main demo_world (File ''docs/doc.pdf'' demo_pdf) (Some ''doc.md'') 1 0) = 0"
    by code_simp
  show "outputs (snd (main demo_world (File ''docs/doc.pdf'' demo_pdf) (Some ''doc.md'') 1 0))
       = [''# A'' @ [LF, LF, LF, LF]]"
    by code_simp
  show "outputs (snd (main demo_world (File ''docs/doc.pdf'' demo_pdf) None 1 0))
       = [''# A'' @ [LF, LF, LF, LF] @ [LF]]"
    by code_simp
qed

text \<open>
  An instance of C2: the page loop and the second half of the script on two pages,
  whose names sort as their ordinals.
\<close>

theorem markdown_assembly_witness:
  "\<not> falsy (OPENAI_API_KEY (getenv demo_world))
   \<and> fst (page_loop demo_world [''page_1.png'', ''page_2.png''] ''intro'' []) =
       Inr (''intro# A'' @ [LF, LF, LF, LF])
   \<and> worker demo_world ''output/1/input.pdf'' 1 0 = Inr [''page_2.png'', ''page_1.png'']
   \<and> outputs (snd (main_convert demo_world ''output/1'' (Some ''doc.md'') ''output/1/input.pdf''
                      1 0 []))
       = [''# A'' @ [LF, LF, LF, LF]]
   \<and> sorted (map (\<lambda>p. if p = ''page_1.png'' then 1 else 2 :: nat)
               (sort [''page_2.png'', ''page_1.png'']))"
proof -
  have key: "\<not> falsy (OPENAI_API_KEY (getenv demo_world))"
    by code_simp
  have rendered: "worker demo_world ''output/1/input.pdf'' 1 0
                  = Inr [''page_2.png'', ''page_1.png'']"
    by code_simp
  have doc: "''intro'' @ concat (map (\<lambda>fragment. fragment @ [LF, LF])
               (fragments demo_world [''page_1.png'', ''page_2.png''] []))
             = ''intro# A'' @ [LF, LF, LF, LF]"
    by code_simp
  have out: "outputs [] @ [delivered (Some ''doc.md'')
               (concat (map (\<lambda>fragment. fragment @ [LF, LF])
                  (fragments demo_world (sort [''page_2.png'', ''page_1.png''])
                     ([] @ [Create_worker ''output/1/input.pdf'' 1 0, Convert_to_images,
                            Log ''__main__'' INFO ''Image conversion completed'']))))]
             = [''# A'' @ [LF, LF, LF, LF]]"
    by code_simp
  have names: "\<forall>a \<in> set [''page_2.png'', ''page_1.png''].
                 \<forall>b \<in> set [''page_2.png'', ''page_1.png''].
                   a \<le> b \<longrightarrow> (if a = ''page_1.png'' then 1 else 2 :: nat)
                               \<le> (if b = ''page_1.png'' then 1 else 2)"
    by simp
  note whole = markdown_assembly [where w = demo_world and t = "[]" and markdown = "''intro''"
      and paths = "[''page_1.png'', ''page_2.png'']" and output_dir = "''output/1''"
      and output_path = "Some ''doc.md''"
      and img_paths = "[''page_2.png'', ''page_1.png'']"
      and ordinal = "\<lambda>p. if p = ''page_1.png'' then 1 else 2"]
  note inst = whole [THEN conjunct1, THEN mp, OF key]
  have a: "fst (page_loop demo_world [''page_1.png'', ''page_2.png''] ''intro'' []) =
       Inr (''intro# A'' @ [LF, LF, LF, LF])"
    using inst [THEN conjunct1] by (simp only: doc)
  have b: "outputs (snd (main_convert demo_world ''output/1'' (Some ''doc.md'')
                      ''output/1/input.pdf'' 1 0 []))
       = [''# A'' @ [LF, LF, LF, LF]]"
    using inst [THEN conjunct2, THEN conjunct2, THEN mp, OF rendered, THEN conjunct2]
    by (simp only: out)
  note c = whole [THEN conjunct2, THEN conjunct1, THEN mp, OF names]
  from key a rendered b c show ?thesis by (intro conjI)
qed

text \<open>
  C6: the image paths that the rendering collaborator returns are sorted before they
  are processed, in the lexicographic order of strings, whatever the collaborator
  returns: the pages announced by the loop are the sorted paths, in that order (all of
  them when the API key is set, a beginning of them otherwise). page_2.png,
  page_10.png, page_1.png are processed as page_1.png, page_10.png, page_2.png.
\<close>

theorem page_order:
  "(worker w temp start_page end_page = Inr img_paths \<longrightarrow>
      prefix (converted (snd (main_convert w output_dir output_path temp start_page
                                end_page t)))
        (converted t @ map replace_backslash (sort img_paths))
      \<and> (\<not> falsy (OPENAI_API_KEY (getenv w)) \<longrightarrow>
           converted (snd (main_convert w output_dir output_path temp start_page end_page t))
           = converted t @ map replace_backslash (sort img_paths)))
   \<and> sorted_wrt (\<lambda>a b. a = b \<or> (a, b) \<in> lexord {(c, d). (of_char c :: nat) < of_char d})
        (sort img_paths)
   \<and> set (sort img_paths) = set img_paths
   \<and> length (sort img_paths) = length img_paths
   \<and> sort [''page_2.png'', ''page_10.png'', ''page_1.png'']
       = [''page_1.png'', ''page_10.png'', ''page_2.png'']
   \<and> converted (snd (main three_page_world (Stdin demo_pdf) None 1 0))
       = [''page_1.png'', ''page_10.png'', ''page_2.png'']"
proof (intro conjI impI)
  assume rendered: "worker w temp start_page end_page = Inr img_paths"
  then show "prefix (converted (snd (main_convert w output_dir output_path temp start_page
                                end_page t)))
        (converted t @ map replace_backslash (sort img_paths))"
    by (rule main_convert_order)
  assume key: "\<not> falsy (OPENAI_API_KEY (getenv w))"
  from main_convert_key [OF key rendered, of output_dir output_path t]
  show "converted (snd (main_convert w output_dir output_path temp start_page end_page t))
           = converted t @ map replace_backslash (sort img_paths)"
    by blast
next
  have "(\<lambda>a b. a = b \<or> (a, b) \<in> lexord {(c, d). (of_char c :: nat) < of_char d})
        = ((\<le>) :: string \<Rightarrow> string \<Rightarrow> bool)"
    by (intro ext) (auto simp: list_le_def list_less_def less_char_def)
  then show "sorted_wrt (\<lambda>a b. a = b \<or> (a, b) \<in> lexord {(c, d). (of_char c :: nat) < of_char d})
        (sort img_paths)"
    by (simp only: sorted_sort)
next
  show "set (sort img_paths) = set img_paths" by simp
  show "length (sort img_paths) = length img_paths" by simp
  show "sort [''page_2.png'', ''page_10.png'', ''page_1.png'']
       = [''page_1.png'', ''page_10.png'', ''page_2.png'']"
    by code_simp
  show "converted (snd (main three_page_world (Stdin demo_pdf) None 1 0))
       = [''page_1.png'', ''page_10.png'', ''page_2.png'']"
    by code_simp
qed

text \<open>An instance of C6 on the three pages of the example.\<close>

theorem page_order_witness:
  "worker three_page_world ''output/1/input.pdf'' 1 0
     = Inr [''page_2.png'', ''page_10.png'', ''page_1.png'']
   \<and> \<not> falsy (OPENAI_API_KEY (getenv three_page_world))
   \<and> converted (snd (main_convert three_page_world ''output/1'' None ''output/1/input.pdf''
                        1 0 []))
       = [''page_1.png'', ''page_10.png'', ''page_2.png'']"
proof -
  have rendered: "worker three_page_world ''output/1/input.pdf'' 1 0
     = Inr [''page_2.png'', ''page_10.png'', ''page_1.png'']"
    by code_simp
  have key: "\<not> falsy (OPENAI_API_KEY (getenv three_page_world))"
    by code_simp
  have order: "converted [] @ map replace_backslash
                 (sort [''page_2.png'', ''page_10.png'', ''page_1.png''])
               = [''page_1.png'', ''page_10.png'', ''page_2.png'']"
    by code_simp
  have "converted (snd (main_convert three_page_world ''output/1'' None ''output/1/input.pdf''
                        1 0 []))
       = [''page_1.png'', ''page_10.png'', ''page_2.png'']"
    using page_order [where w = three_page_world and t = "[]" and output_dir = "''output/1''"
        and output_path = None, THEN conjunct1, THEN mp, OF rendered, THEN conjunct2,
        THEN mp, OF key]
    by (simp only: order)
  with rendered key show ?thesis by (intro conjI)
qed

section \<open>Claims about fatal errors\<close>

text \<open>
  C4, as stated, fails: without an API key the run of the example ends with status 1
  only when the first page is about to be converted: the input has been classified and
  written to the work directory and the pages have been rendered before the exit.
\<close>

theorem missing_key_counterexample:
  "falsy (OPENAI_API_KEY (getenv keyless_world))
   \<and> main keyless_world (Stdin demo_pdf) None 1 0 =
       (1, [Makedirs ''output/20240101120000'',
            Log ''__main__'' INFO ''Recognized as PDF file by file content'',
            Write_bytes ''output/20240101120000/input.pdf'' demo_pdf,
            Create_worker ''output/20240101120000/input.pdf'' 1 0,
            Convert_to_images,
            Log ''__main__'' INFO ''Image conversion completed'',
            Log ''__main__'' INFO ''Converting image page_1.png to Markdown'',
            Log ''__main__'' ERROR ''Please set the OPENAI_API_KEY environment variables''])"
  by code_simp

text \<open>
  C4, amended: if the API key is absent or empty, no completion request is ever sent;
  and when the input has been classified and the renderer has returned at least one
  page image, the run ends with exit status 1 at the first page's call of
  \<open>completion\<close>, after the input has been written to the work directory and the pages
  have been rendered, and before any Markdown is written or printed.
\<close>

theorem missing_key:
  "falsy (OPENAI_API_KEY (getenv w)) \<longrightarrow>
     requests_sent (snd (main w inp output_path start_page end_page)) = 0
     \<and> (inp \<noteq> Stdin []
          \<and> input_extension (input_filename_of inp) (input_data_of inp)
               [Makedirs (''output/'' @ now w)] = (Inr input_ext, t)
          \<and> worker w (''output/'' @ now w @ ''/input'' @ input_ext) start_page end_page
               = Inr img_paths
          \<and> sort img_paths = first_path # others \<longrightarrow>
          main w inp output_path start_page end_page =
            (1, t @ [Write_bytes (''output/'' @ now w @ ''/input'' @ input_ext)
                       (input_data_of inp),
                     Create_worker (''output/'' @ now w @ ''/input'' @ input_ext)
                       start_page end_page,
                     Convert_to_images,
                     Log ''__main__'' INFO ''Image conversion completed'',
                     Log ''__main__'' INFO
                       (''Converting image '' @ replace_backslash first_path
                          @ '' to Markdown''),
                     Log ''__main__'' ERROR
                       ''Please set the OPENAI_API_KEY environment variables'']))"
proof (intro impI conjI; (elim conjE)?)
  assume keyless: "falsy (OPENAI_API_KEY (getenv w))"
  then show "requests_sent (snd (main w inp output_path start_page end_page)) = 0"
    by (rule main_keyless_requests)
  assume given: "inp \<noteq> Stdin []"
    and classified: "input_extension (input_filename_of inp) (input_data_of inp)
               [Makedirs (''output/'' @ now w)] = (Inr input_ext, t)"
    and rendered: "worker w (''output/'' @ now w @ ''/input'' @ input_ext) start_page end_page
               = Inr img_paths"
    and first: "sort img_paths = first_path # others"
  show "main w inp output_path start_page end_page =
            (1, t @ [Write_bytes (''output/'' @ now w @ ''/input'' @ input_ext)
                       (input_data_of inp),
                     Create_worker (''output/'' @ now w @ ''/input'' @ input_ext)
                       start_page end_page,
                     Convert_to_images,
                     Log ''__main__'' INFO ''Image conversion completed'',
                     Log ''__main__'' INFO
                       (''Converting image '' @ replace_backslash first_path
                          @ '' to Markdown''),
                     Log ''__main__'' ERROR
                       ''Please set the OPENAI_API_KEY environment variables''])"
    unfolding main_classified [OF given classified]
      main_convert_keyless [OF keyless rendered first]
    by simp
qed

text \<open>An instance of C4: a PDF file named on the command line, no API key.\<close>

theorem missing_key_witness:
  "falsy (OPENAI_API_KEY (getenv keyless_world))
   \<and> input_extension (input_filename_of (File ''scans/report.pdf'' demo_pdf))
         (input_data_of (File ''scans/report.pdf'' demo_pdf))
         [Makedirs (''output/'' @ now keyless_world)]
       = (Inr ''.pdf'', [Makedirs ''output/20240101120000''])
   \<and> worker keyless_world (''output/'' @ now keyless_world @ ''/input'' @ ''.pdf'') 1 0
       = Inr [''page_2.png'', ''page_1.png'']
   \<and> sort [''page_2.png'', ''page_1.png''] = [''page_1.png'', ''page_2.png'']
   \<and> requests_sent (snd (main keyless_world (File ''scans/report.pdf'' demo_pdf)
                            (Some ''report.md'') 1 0)) = 0
   \<and> main keyless_world (File ''scans/report.pdf'' demo_pdf) (Some ''report.md'') 1 0 =
       (1, [Makedirs ''output/20240101120000'',
            Write_bytes ''output/20240101120000/input.pdf'' demo_pdf,
            Create_worker ''output/20240101120000/input.pdf'' 1 0,
            Convert_to_images,
            Log ''__main__'' INFO ''Image conversion completed'',
            Log ''__main__'' INFO ''Converting image page_1.png to Markdown'',
            Log ''__main__'' ERROR ''Please set the OPENAI_API_KEY environment variables''])"
proof -
  let ?inp = "File ''scans/report.pdf'' demo_pdf"
  have keyless: "falsy (OPENAI_API_KEY (getenv keyless_world))"
    by code_simp
  have given: "?inp \<noteq> Stdin []"
    by simp
  have classified: "input_extension (input_filename_of ?inp) (input_data_of ?inp)
         [Makedirs (''output/'' @ now keyless_world)]
       = (Inr ''.pdf'', [Makedirs ''output/20240101120000''])"
    by code_simp
  have rendered: "worker keyless_world (''output/'' @ now keyless_world @ ''/input'' @ ''.pdf'')
                    1 0 = Inr [''page_2.png'', ''page_1.png'']"
    by code_simp
  have first: "sort [''page_2.png'', ''page_1.png''] = [''page_1.png'', ''page_2.png'']"
    by code_simp
  have trace: "[Makedirs ''output/20240101120000'']
       @ [Write_bytes (''output/'' @ now keyless_world @ ''/input'' @ ''.pdf'')
            (input_data_of ?inp),
          Create_worker (''output/'' @ now keyless_world @ ''/input'' @ ''.pdf'') 1 0,
          Convert_to_images,
          Log ''__main__'' INFO ''Image conversion completed'',
          Log ''__main__'' INFO
            (''Converting image '' @ replace_backslash ''page_1.png'' @ '' to Markdown''),
          Log ''__main__'' ERROR ''Please set the OPENAI_API_KEY environment variables'']
     = [Makedirs ''output/20240101120000'',
        Write_bytes ''output/20240101120000/input.pdf'' demo_pdf,
        Create_worker ''output/20240101120000/input.pdf'' 1 0,
        Convert_to_images,
        Log ''__main__'' INFO ''Image conversion completed'',
        Log ''__main__'' INFO ''Converting image page_1.png to Markdown'',
        Log ''__main__'' ERROR ''Please set the OPENAI_API_KEY environment variables'']"
    by code_simp
  note inst = missing_key [where w = keyless_world and inp = ?inp
      and output_path = "Some ''report.md''" and start_page = 1 and end_page = 0,
      THEN mp, OF keyless]
  note none = inst [THEN conjunct1]
  have stop: "main keyless_world ?inp (Some ''report.md'') 1 0 =
       (1, [Makedirs ''output/20240101120000'',
            Write_bytes ''output/20240101120000/input.pdf'' demo_pdf,
            Create_worker ''output/20240101120000/input.pdf'' 1 0,
            Convert_to_images,
            Log ''__main__'' INFO ''Image conversion completed'',
            Log ''__main__'' INFO ''Converting image page_1.png to Markdown'',
            Log ''__main__'' ERROR ''Please set the OPENAI_API_KEY environment variables''])"
    using inst [THEN conjunct2, THEN mp,
        OF conjI [OF given conjI [OF classified conjI [OF rendered first]]]]
    by (simp only: trace)
  from keyless classified rendered first none stop show ?thesis
    by (intro conjI)
qed

text \<open>
  C5, as stated, fails: \<open>notes.txt\<close> has an extension that names no supported type, and
  its bytes match no signature, yet the classification does not fail: the bytes are
  not looked at, and the extension \<open>.txt\<close> is passed on.
\<close>

theorem classification_counterexample:
  "splitext_ext ''notes.txt'' = ''.txt''
   \<and> input_extension ''notes.txt'' [0x00] [] = (Inr ''.txt'', [])"
  by code_simp

text \<open>
  C5, amended: when the file name has no extension at all (as for standard input),
  the classification looks at the leading bytes: \<open>%PDF-\<close> gives PDF, \<open>FF D8 FF DB\<close>
  gives JPEG, \<open>89 50 4E 47\<close> gives PNG, \<open>42 4D\<close> gives BMP; for every such input whose
  leading bytes match none of these, the classification fails: the run logs
  \<open>Unsupported file type\<close> and ends with exit status 1, with nothing rendered and
  nothing written or printed. A file name with any extension is not sniffed: its
  extension is passed on as it is.
\<close>

theorem classification:
  "(splitext_ext input_filename = [] \<longrightarrow>
      (prefix [0x25, 0x50, 0x44, 0x46, 0x2D] input_data \<longrightarrow>
         input_extension input_filename input_data t =
           (Inr ''.pdf'', t @ [Log ''__main__'' INFO ''Recognized as PDF file by file content'']))
      \<and> (prefix [0xFF, 0xD8, 0xFF, 0xDB] input_data \<longrightarrow>
           input_extension input_filename input_data t =
             (Inr ''.jpg'',
              t @ [Log ''__main__'' INFO ''Recognized as JPEG file by file content'']))
      \<and> (prefix [0x89, 0x50, 0x4E, 0x47] input_data \<longrightarrow>
           input_extension input_filename input_data t =
             (Inr ''.png'',
              t @ [Log ''__main__'' INFO ''Recognized as PNG file by file content'']))
      \<and> (prefix [0x42, 0x4D] input_data \<longrightarrow>
           input_extension input_filename input_data t =
             (Inr ''.bmp'',
              t @ [Log ''__main__'' INFO ''Recognized as BMP file by file content'']))
      \<and> (\<not> prefix [0x25, 0x50, 0x44, 0x46, 0x2D] input_data
           \<and> \<not> prefix [0xFF, 0xD8, 0xFF, 0xDB] input_data
           \<and> \<not> prefix [0x89, 0x50, 0x4E, 0x47] input_data
           \<and> \<not> prefix [0x42, 0x4D] input_data \<longrightarrow>
           input_extension input_filename input_data t =
             (Inl (SystemExit 1), t @ [Log ''__main__'' ERROR ''Unsupported file type''])))
   \<and> (splitext_ext (input_filename_of inp) = [] \<and> inp \<noteq> Stdin []
        \<and> \<not> prefix [0x25, 0x50, 0x44, 0x46, 0x2D] (input_data_of inp)
        \<and> \<not> prefix [0xFF, 0xD8, 0xFF, 0xDB] (input_data_of inp)
        \<and> \<not> prefix [0x89, 0x50, 0x4E, 0x47] (input_data_of inp)
        \<and> \<not> prefix [0x42, 0x4D] (input_data_of inp) \<longrightarrow>
        main w inp output_path start_page end_page =
          (1, [Makedirs (''output/'' @ now w),
               Log ''__main__'' ERROR ''Unsupported file type'']))
   \<and> splitext_ext (input_filename_of (Stdin input_data)) = []
   \<and> (splitext_ext input_filename \<noteq> [] \<longrightarrow>
        input_extension input_filename input_data t = (Inr (splitext_ext input_filename), t))"
proof (intro conjI impI; (elim conjE)?)
  assume none: "splitext_ext input_filename = []"
  {
    assume "prefix [0x25, 0x50, 0x44, 0x46, 0x2D] input_data"
    with none show "input_extension input_filename input_data t =
           (Inr ''.pdf'', t @ [Log ''__main__'' INFO ''Recognized as PDF file by file content''])"
      by (simp add: input_extension_def)
  }
  {
    assume "prefix [0xFF, 0xD8, 0xFF, 0xDB] input_data"
    with none show "input_extension input_filename input_data t =
             (Inr ''.jpg'',
              t @ [Log ''__main__'' INFO ''Recognized as JPEG file by file content''])"
      by (auto simp: input_extension_def prefix_def)
  }
  {
    assume "prefix [0x89, 0x50, 0x4E, 0x47] input_data"
    with none show "input_extension input_filename input_data t =
             (Inr ''.png'',
              t @ [Log ''__main__'' INFO ''Recognized as PNG file by file content''])"
      by (auto simp: input_extension_def prefix_def)
  }
  {
    assume "prefix [0x42, 0x4D] input_data"
    with none show "input_extension input_filename input_data t =
             (Inr ''.bmp'',
              t @ [Log ''__main__'' INFO ''Recognized as BMP file by file content''])"
      by (auto simp: input_extension_def prefix_def)
  }
  {
    assume "\<not> prefix [0x25, 0x50, 0x44, 0x46, 0x2D] input_data"
      and "\<not> prefix [0xFF, 0xD8, 0xFF, 0xDB] input_data"
      and "\<not> prefix [0x89, 0x50, 0x4E, 0x47] input_data"
      and "\<not> prefix [0x42, 0x4D] input_data"
    with none show "input_extension input_filename input_data t =
             (Inl (SystemExit 1), t @ [Log ''__main__'' ERROR ''Unsupported file type''])"
      by (simp add: input_extension_def)
  }
next
  assume none: "splitext_ext (input_filename_of inp) = []" and given: "inp \<noteq> Stdin []"
    and "\<not> prefix [0x25, 0x50, 0x44, 0x46, 0x2D] (input_data_of inp)"
    and "\<not> prefix [0xFF, 0xD8, 0xFF, 0xDB] (input_data_of inp)"
    and "\<not> prefix [0x89, 0x50, 0x4E, 0x47] (input_data_of inp)"
    and "\<not> prefix [0x42, 0x4D] (input_data_of inp)"
  then have "input_extension (input_filename_of inp) (input_data_of inp)
               [Makedirs (''output/'' @ now w)]
             = (Inl (SystemExit 1),
                [Makedirs (''output/'' @ now w)]
                  @ [Log ''__main__'' ERROR ''Unsupported file type''])"
    by (simp add: input_extension_def)
  from main_unclassified [OF given this]
  show "main w inp output_path start_page end_page =
          (1, [Makedirs (''output/'' @ now w),
               Log ''__main__'' ERROR ''Unsupported file type''])"
    by simp
next
  show "splitext_ext (input_filename_of (Stdin input_data)) = []"
    by (simp add: input_filename_of_def) code_simp
next
  assume ext: "splitext_ext input_filename \<noteq> []"
  have "splitext_ext ''<stdin>'' = []" by code_simp
  with ext have "input_filename \<noteq> ''<stdin>''" by auto
  with ext show "input_extension input_filename input_data t
                 = (Inr (splitext_ext input_filename), t)"
    by (simp add: input_extension_def)
qed

text \<open>
  An instance of C5: the four signatures, a JFIF header that matches none of them,
  the whole run on it, and a name with an extension.
\<close>

theorem classification_witness:
  "splitext_ext ''scan'' = []
   \<and> input_extension ''scan'' demo_pdf [] =
       (Inr ''.pdf'', [Log ''__main__'' INFO ''Recognized as PDF file by file content''])
   \<and> input_extension ''scan'' [0xFF, 0xD8, 0xFF, 0xDB, 0x00, 0x43] [] =
       (Inr ''.jpg'', [Log ''__main__'' INFO ''Recognized as JPEG file by file content''])
   \<and> input_extension ''scan'' [0x89, 0x50, 0x4E, 0x47, 0x0D, 0x0A] [] =
       (Inr ''.png'', [Log ''__main__'' INFO ''Recognized as PNG file by file content''])
   \<and> input_extension ''scan'' [0x42, 0x4D, 0x36] [] =
       (Inr ''.bmp'', [Log ''__main__'' INFO ''Recognized as BMP file by file content''])
   \<and> input_extension ''scan'' [0xFF, 0xD8, 0xFF, 0xE0] [] =
       (Inl (SystemExit 1), [Log ''__main__'' ERROR ''Unsupported file type''])
   \<and> main demo_world (File ''inbox/scan'' [0xFF, 0xD8, 0xFF, 0xE0]) (Some ''scan.md'') 1 0 =
       (1, [Makedirs ''output/20240101120000'',
            Log ''__main__'' ERROR ''Unsupported file type''])
   \<and> splitext_ext ''notes.txt'' \<noteq> []
   \<and> input_extension ''notes.txt'' demo_pdf [] = (Inr ''.txt'', [])"
proof -
  let ?jfif = "[0xFF, 0xD8, 0xFF, 0xE0] :: byte list"
  have none: "splitext_ext ''scan'' = []" by code_simp
  have pdf: "prefix [0x25, 0x50, 0x44, 0x46, 0x2D] demo_pdf" by code_simp
  have jpg: "prefix [0xFF, 0xD8, 0xFF, 0xDB] [0xFF, 0xD8, 0xFF, 0xDB, 0x00, 0x43 :: byte]"
    by simp
  have png: "prefix [0x89, 0x50, 0x4E, 0x47] [0x89, 0x50, 0x4E, 0x47, 0x0D, 0x0A :: byte]"
    by simp
  have bmp: "prefix [0x42, 0x4D] [0x42, 0x4D, 0x36 :: byte]"
    by simp
  have other: "\<not> prefix [0x25, 0x50, 0x44, 0x46, 0x2D] ?jfif
               \<and> \<not> prefix [0xFF, 0xD8, 0xFF, 0xDB] ?jfif
               \<and> \<not> prefix [0x89, 0x50, 0x4E, 0x47] ?jfif
               \<and> \<not> prefix [0x42, 0x4D] ?jfif"
    by simp
  let ?inp = "File ''inbox/scan'' ?jfif"
  have whole: "splitext_ext (input_filename_of ?inp) = [] \<and> ?inp \<noteq> Stdin []
        \<and> \<not> prefix [0x25, 0x50, 0x44, 0x46, 0x2D] (input_data_of ?inp)
        \<and> \<not> prefix [0xFF, 0xD8, 0xFF, 0xDB] (input_data_of ?inp)
        \<and> \<not> prefix [0x89, 0x50, 0x4E, 0x47] (input_data_of ?inp)
        \<and> \<not> prefix [0x42, 0x4D] (input_data_of ?inp)"
    by code_simp
  have ext: "splitext_ext ''notes.txt'' \<noteq> []" by code_simp
  have suffix_txt: "splitext_ext ''notes.txt'' = ''.txt''" by code_simp
  have dir: "''output/'' @ now demo_world = ''output/20240101120000''" by code_simp
  note sniff = classification [where input_filename = "''scan''" and t = "[]",
      THEN conjunct1, THEN mp, OF none]
  have a: "input_extension ''scan'' demo_pdf [] =
       (Inr ''.pdf'', [Log ''__main__'' INFO ''Recognized as PDF file by file content''])"
    using classification [where input_filename = "''scan''" and t = "[]"
        and input_data = demo_pdf, THEN conjunct1, THEN mp, OF none, THEN conjunct1, THEN mp,
        OF pdf]
    by simp
  have b: "input_extension ''scan'' [0xFF, 0xD8, 0xFF, 0xDB, 0x00, 0x43] [] =
       (Inr ''.jpg'', [Log ''__main__'' INFO ''Recognized as JPEG file by file content''])"
    using sniff [THEN conjunct2, THEN conjunct1, THEN mp, OF jpg] by simp
  have c: "input_extension ''scan'' [0x89, 0x50, 0x4E, 0x47, 0x0D, 0x0A] [] =
       (Inr ''.png'', [Log ''__main__'' INFO ''Recognized as PNG file by file content''])"
    using sniff [THEN conjunct2, THEN conjunct2, THEN conjunct1, THEN mp, OF png] by simp
  have d: "input_extension ''scan'' [0x42, 0x4D, 0x36] [] =
       (Inr ''.bmp'', [Log ''__main__'' INFO ''Recognized as BMP file by file content''])"
    using sniff [THEN conjunct2, THEN conjunct2, THEN conjunct2, THEN conjunct1, THEN mp,
        OF bmp]
    by simp
  have e: "input_extension ''scan'' ?jfif [] =
       (Inl (SystemExit 1), [Log ''__main__'' ERROR ''Unsupported file type''])"
    using sniff [THEN conjunct2, THEN conjunct2, THEN conjunct2, THEN conjunct2, THEN mp,
        OF other]
    by simp
  have f: "main demo_world ?inp (Some ''scan.md'') 1 0 =
       (1, [Makedirs ''output/20240101120000'',
            Log ''__main__'' ERROR ''Unsupported file type''])"
    using classification [where inp = ?inp and w = demo_world
        and output_path = "Some ''scan.md''" and start_page = 1 and end_page = 0,
        THEN conjunct2, THEN conjunct1, THEN mp, OF whole]
    by (simp only: dir)
  have g: "input_extension ''notes.txt'' demo_pdf [] = (Inr ''.txt'', [])"
    using classification [where input_filename = "''notes.txt''" and input_data = demo_pdf
        and t = "[]", THEN conjunct2, THEN conjunct2, THEN conjunct2, THEN mp, OF ext]
    by (simp only: suffix_txt)
  from none a b c d e f ext g show ?thesis by (intro conjI)
qed

end
